theory Spec2Isabelle
  imports Main "HOL-Library.Word"
begin

section \<open>The SSDP connection tracking helper (nf\_conntrack\_ssdp.c)\<close>

text \<open>
  The helper is one packet handler, \<open>ssdp_help\<close>, and the subnet lookup it calls,
  \<open>ssdp_src_netmask\<close>. Both are embedded as functions that return the C return value
  together with the list of calls they make into the kernel (logging, reference counting
  of the interface's address configuration, allocation and registration of the
  expectation), in program order. That list is everything the helper does to the world
  outside its own stack frame.
\<close>

subsection \<open>Constants\<close>

text \<open>
  A \<open>__be32\<close> or \<open>__be16\<close> value is modelled by the number its bytes denote in network
  byte order, so that 239.255.255.250 is \<open>0xeffffffa\<close> whatever the byte order of the CPU
  is. On that reading \<open>cpu_to_be32\<close> is the identity.
\<close>

type_synonym be32 = "32 word"
type_synonym be16 = "16 word"

definition cpu_to_be32 :: "32 word \<Rightarrow> be32" where
  "cpu_to_be32 x = x"

definition cpu_to_be16 :: "16 word \<Rightarrow> be16" where
  "cpu_to_be16 x = x"

definition SSDP_MCAST_ADDR :: "32 word" where
  "SSDP_MCAST_ADDR = 0xeffffffa"

definition SSDP_UDP_PORT :: "16 word" where
  "SSDP_UDP_PORT = 1900"

text \<open>The C string literal, with its terminating NUL; \<open>sizeof\<close> counts that byte.\<close>

definition SSDP_M_SEARCH :: "char list" where
  "SSDP_M_SEARCH = ''M-SEARCH'' @ [CHR 0x00]"

definition SSDP_M_SEARCH_SIZE :: nat where
  "SSDP_M_SEARCH_SIZE = length SSDP_M_SEARCH - 1"

definition sizeof_udphdr :: nat where
  "sizeof_udphdr = 8"

text \<open>Dotted-quad notation, used to state addresses the way the documentation does.\<close>

definition ipv4 :: "32 word \<Rightarrow> 32 word \<Rightarrow> 32 word \<Rightarrow> 32 word \<Rightarrow> be32" where
  "ipv4 a b c d = ((a * 256 + b) * 256 + c) * 256 + d"

subsection \<open>Kernel data the helper reads and writes\<close>

text \<open>
  \<open>union nf_inet_addr\<close> is four 32-bit words; its member \<open>ip\<close> is the first of them.
  Writing \<open>u3.ip\<close> leaves the other three as they were.
\<close>

record nf_inet_addr =
  ip :: be32
  all1 :: "32 word"
  all2 :: "32 word"
  all3 :: "32 word"

text \<open>
  The \<open>src\<close> and \<open>dst\<close> parts of \<open>struct nf_conntrack_tuple\<close>. Every member of the
  protocol union \<open>u\<close> (\<open>all\<close>, \<open>udp.port\<close>, ...) is the same 16 bits, modelled by the one
  field \<open>u\<close>.
\<close>

record nf_conntrack_man =
  u3 :: nf_inet_addr
  u :: be16
  l3num :: "16 word"

record nf_conntrack_dst =
  dst_u3 :: nf_inet_addr
  dst_u :: be16
  protonum :: "8 word"
  dir :: "8 word"

record nf_conntrack_tuple =
  src :: nf_conntrack_man
  dst :: nf_conntrack_dst

text \<open>
  The mask of an expectation. Its declaration is in the kernel's headers; the helper only
  clears the whole of it with \<open>memset\<close> and then writes \<open>src.u3.ip\<close> and
  \<open>src.u.udp.port\<close>. The model gives the mask every field a tuple has, so that what
  \<open>memset\<close> does is stated for each of them; a kernel whose mask has fewer fields has a
  subset of these.
\<close>

type_synonym nf_conntrack_tuple_mask = nf_conntrack_tuple

definition memset_0_addr :: nf_inet_addr where
  "memset_0_addr = \<lparr>ip = 0, all1 = 0, all2 = 0, all3 = 0\<rparr>"

definition memset_0 :: nf_conntrack_tuple_mask where
  "memset_0 =
     \<lparr>src = \<lparr>u3 = memset_0_addr, u = 0, l3num = 0\<rparr>,
      dst = \<lparr>dst_u3 = memset_0_addr, dst_u = 0, protonum = 0, dir = 0\<rparr>\<rparr>"

datatype ip_conntrack_dir = IP_CT_DIR_ORIGINAL | IP_CT_DIR_REPLY

datatype ip_conntrack_info =
  IP_CT_ESTABLISHED | IP_CT_RELATED | IP_CT_NEW | IP_CT_IS_REPLY

record nf_conn =
  tuplehash :: "ip_conntrack_dir \<Rightarrow> nf_conntrack_tuple"

text \<open>
  The fields of \<open>struct nf_conntrack_expect\<close> that the helper assigns. A pointer is
  \<open>None\<close> when it is \<open>NULL\<close>. (\<open>mask\<close> and \<open>class\<close> carry a suffix: the first is a
  constant of the word library, the second a keyword.)
\<close>

record nf_conntrack_expect =
  tuple :: nf_conntrack_tuple
  mask_e :: nf_conntrack_tuple_mask
  expectfn :: "nat option"
  flags :: "32 word"
  class_e :: "32 word"
  helper :: "nat option"

definition NF_CT_EXPECT_CLASS_DEFAULT :: "32 word" where
  "NF_CT_EXPECT_CLASS_DEFAULT = 0"

record in_ifaddr =
  ifa_local :: be32
  ifa_mask :: be32
  ifa_label :: string

text \<open>The \<open>ifa_next\<close> chain of an interface, \<open>NULL\<close>-terminated, as a list in chain order.\<close>

record in_device =
  ifa_list :: "in_ifaddr list"

text \<open>
  \<open>in_dev\<close> is what \<open>in_dev_get\<close> finds for the device: \<open>None\<close> when the device has no
  IPv4 configuration block and the call returns \<open>NULL\<close>.
\<close>

record net_device =
  name :: string
  in_dev :: "in_device option"

text \<open>A packet: the device it arrived on and its bytes, counted from the network header.\<close>

record sk_buff =
  dev :: net_device
  data :: "char list"

record nf_conntrack_expect_policy =
  max_expected :: nat
  timeout :: nat
  policy_name :: string

text \<open>
  The data of the helper's registration; its members \<open>me\<close> and \<open>help\<close> (the module and
  the pointer to \<open>ssdp_help\<close>) carry no data and are left out.
\<close>

record nf_conntrack_helper =
  helper_name :: string
  tuple_src_l3num :: "16 word"
  tuple_src_udp_port :: be16
  tuple_dst_protonum :: "8 word"
  expect_policy :: nf_conntrack_expect_policy

definition NFPROTO_IPV4 :: "16 word" where
  "NFPROTO_IPV4 = 2"

definition IPPROTO_UDP :: "8 word" where
  "IPPROTO_UDP = 17"

definition ssdp_policy :: nf_conntrack_expect_policy where
  "ssdp_policy = \<lparr>max_expected = 1, timeout = 1, policy_name = ''ssdp''\<rparr>"

definition ssdp_helper :: nf_conntrack_helper where
  "ssdp_helper =
     \<lparr>helper_name = ''ssdp'',
      tuple_src_l3num = NFPROTO_IPV4,
      tuple_src_udp_port = cpu_to_be16 SSDP_UDP_PORT,
      tuple_dst_protonum = IPPROTO_UDP,
      expect_policy = ssdp_policy\<rparr>"

subsection \<open>What the helper does to the kernel\<close>

text \<open>One constructor for each format string of the source, with its arguments.\<close>

datatype message =
    Device_has_no_IPv4_addresses string
  | Source_address_not_assigned be32 string
  | Memory_allocation_failure
  | Found_netmask be32 be32 string
  | Help_flow be32 be16 be32 be16
  | Destination_not_multicast
  | Payload_too_small
  | Payload_not_M_SEARCH

text \<open>
  The calls, in the order they are made. \<open>In_dev_get ok\<close> and \<open>Nf_ct_expect_alloc ok\<close>
  record whether the call returned an object (and with it a reference); \<open>Ifa_read\<close> is
  one iteration of the loop over the address list, reading that entry.
\<close>

datatype event =
    Pr_debug message
  | Pr_warn message
  | In_dev_get bool
  | Ifa_read in_ifaddr
  | In_dev_put
  | Nf_ct_expect_alloc bool
  | Nf_ct_expect_related nf_conntrack_expect "32 word"
  | Nf_ct_expect_put nf_conntrack_expect

datatype verdict = NF_DROP | NF_ACCEPT

datatype fault = Out_of_bounds_read

subsection \<open>Kernel and library functions the helper calls\<close>

text \<open>
  \<open>skb_header_pointer skb offset len\<close>: the \<open>len\<close> bytes at \<open>offset\<close> when the packet
  holds them all, \<open>NULL\<close> otherwise.
\<close>

definition skb_header_pointer :: "sk_buff \<Rightarrow> nat \<Rightarrow> nat \<Rightarrow> char list option" where
  "skb_header_pointer skb offset len =
     (if offset + len \<le> length (data skb)
      then Some (take len (drop offset (data skb)))
      else None)"

text \<open>
  \<open>memcmp\<close> is defined only when both objects have \<open>n\<close> bytes; the model returns
  \<open>None\<close> where the C call would read past the end of one of them.
\<close>

fun memcmp_bytes :: "char list \<Rightarrow> char list \<Rightarrow> int" where
  "memcmp_bytes (a # as) (b # bs) =
     (if a = b then memcmp_bytes as bs else int (of_char a) - int (of_char b))"
| "memcmp_bytes _ _ = 0"

definition memcmp :: "char list \<Rightarrow> char list \<Rightarrow> nat \<Rightarrow> int option" where
  "memcmp s1 s2 n =
     (if n \<le> length s1 \<and> n \<le> length s2
      then Some (memcmp_bytes (take n s1) (take n s2))
      else None)"

subsection \<open>ssdp\_src\_netmask\<close>

text \<open>
  The \<open>for\<close> loop over \<open>dev->ifa_list\<close>: \<open>ret\<close> starts at 0 and the loop leaves at the
  first entry whose \<open>ifa_local\<close> is the source address.
\<close>

fun ifa_loop :: "in_ifaddr list \<Rightarrow> be32 \<Rightarrow> be32 \<times> event list" where
  "ifa_loop [] ip_src = (0, [])"
| "ifa_loop (addr # ifa_next) ip_src =
     (if ifa_local addr = ip_src
      then (ifa_mask addr,
            [Ifa_read addr, Pr_debug (Found_netmask (ifa_mask addr) ip_src (ifa_label addr))])
      else (case ifa_loop ifa_next ip_src of
              (ret, evs) \<Rightarrow> (ret, Ifa_read addr # evs)))"

definition ssdp_src_netmask :: "sk_buff \<Rightarrow> nf_conntrack_tuple \<Rightarrow> be32 \<times> event list" where
  "ssdp_src_netmask skb orig =
     (case in_dev (dev skb) of
        None \<Rightarrow>
          (0, [In_dev_get False, Pr_warn (Device_has_no_IPv4_addresses (name (dev skb)))])
      | Some d \<Rightarrow>
          (case ifa_loop (ifa_list d) (ip (u3 (src orig))) of
             (ret, evs) \<Rightarrow>
               (ret,
                In_dev_get True # evs @
                (if ret = 0
                 then [Pr_warn (Source_address_not_assigned (ip (u3 (src orig))) (name (dev skb)))]
                 else []) @
                [In_dev_put])))"

subsection \<open>ssdp\_help\<close>

text \<open>
  The expectation as the helper leaves it: the reply tuple copied, its \<open>src.u3.ip\<close>
  overwritten with its own \<open>dst.u3.ip\<close>, the mask cleared and two of its fields set.
\<close>

definition fill_expect ::
  "nf_conntrack_expect \<Rightarrow> nf_conn \<Rightarrow> be32 \<Rightarrow> nf_conntrack_expect" where
  "fill_expect expect ct netmask =
     (let e1 = expect\<lparr>tuple := tuplehash ct IP_CT_DIR_REPLY\<rparr>;
          e2 = e1\<lparr>tuple := (tuple e1)\<lparr>src := (src (tuple e1))
                 \<lparr>u3 := (u3 (src (tuple e1)))\<lparr>ip := ip (dst_u3 (dst (tuple e1)))\<rparr>\<rparr>\<rparr>\<rparr>;
          e3 = e2\<lparr>mask_e := memset_0\<rparr>;
          e4 = e3\<lparr>mask_e := (mask_e e3)\<lparr>src := (src (mask_e e3))
                 \<lparr>u3 := (u3 (src (mask_e e3)))\<lparr>ip := netmask\<rparr>\<rparr>\<rparr>\<rparr>;
          e5 = e4\<lparr>mask_e := (mask_e e4)\<lparr>src := (src (mask_e e4))\<lparr>u := 0xffff\<rparr>\<rparr>\<rparr>
      in e5\<lparr>expectfn := None, flags := 0, class_e := NF_CT_EXPECT_CLASS_DEFAULT,
            helper := None\<rparr>)"

text \<open>
  \<open>nf_ct_expect_alloc\<close> is the kernel's; it is a parameter, \<open>None\<close> being the \<open>NULL\<close>
  of a failed allocation. \<open>protoff\<close> is the offset of the UDP header in the packet, an
  \<open>unsigned int\<close> in C and a natural number here: the connection tracking engine passes
  an offset inside the packet, where \<open>protoff + sizeof(struct udphdr)\<close> does not wrap.
  \<open>ctinfo\<close> is not used by the function.
\<close>

definition flow_debug :: "nf_conntrack_tuple \<Rightarrow> event" where
  "flow_debug orig =
     Pr_debug (Help_flow (ip (u3 (src orig))) (u (src orig))
                         (ip (dst_u3 (dst orig))) (dst_u (dst orig)))"

definition ssdp_help ::
  "(nf_conn \<Rightarrow> nf_conntrack_expect option) \<Rightarrow> sk_buff \<Rightarrow> nat \<Rightarrow> nf_conn \<Rightarrow>
   ip_conntrack_info \<Rightarrow> (fault + verdict) \<times> event list" where
  "ssdp_help nf_ct_expect_alloc skb protoff ct ctinfo =
     (let orig = tuplehash ct IP_CT_DIR_ORIGINAL;
          ev0 = [flow_debug orig]
      in
      if ip (dst_u3 (dst orig)) \<noteq> cpu_to_be32 SSDP_MCAST_ADDR
      then (Inr NF_ACCEPT, ev0 @ [Pr_debug Destination_not_multicast])
      else
        case skb_header_pointer skb (protoff + sizeof_udphdr) SSDP_M_SEARCH_SIZE of
          None \<Rightarrow> (Inr NF_ACCEPT, ev0 @ [Pr_debug Payload_too_small])
        | Some udpdata \<Rightarrow>
            (case memcmp udpdata SSDP_M_SEARCH SSDP_M_SEARCH_SIZE of
               None \<Rightarrow> (Inl Out_of_bounds_read, ev0)
             | Some c \<Rightarrow>
                 if c \<noteq> 0
                 then (Inr NF_ACCEPT, ev0 @ [Pr_debug Payload_not_M_SEARCH])
                 else
                   (case ssdp_src_netmask skb orig of
                      (netmask, ev1) \<Rightarrow>
                        if netmask = 0
                        then (Inr NF_DROP, ev0 @ ev1)
                        else
                          (case nf_ct_expect_alloc ct of
                             None \<Rightarrow>
                               (Inr NF_DROP,
                                ev0 @ ev1 @
                                [Nf_ct_expect_alloc False, Pr_warn Memory_allocation_failure])
                           | Some expect \<Rightarrow>
                               (let e = fill_expect expect ct netmask
                                in (Inr NF_ACCEPT,
                                    ev0 @ ev1 @
                                    [Nf_ct_expect_alloc True, Nf_ct_expect_related e 0,
                                     Nf_ct_expect_put e]))))))"

subsection \<open>Reading a list of calls\<close>

fun registered :: "event list \<Rightarrow> nf_conntrack_expect list" where
  "registered [] = []"
| "registered (Nf_ct_expect_related e fl # evs) = e # registered evs"
| "registered (ev # evs) = registered evs"

fun allocations :: "event list \<Rightarrow> nat" where
  "allocations [] = 0"
| "allocations (Nf_ct_expect_alloc ok # evs) = Suc (allocations evs)"
| "allocations (ev # evs) = allocations evs"

fun warnings :: "event list \<Rightarrow> message list" where
  "warnings [] = []"
| "warnings (Pr_warn m # evs) = m # warnings evs"
| "warnings (ev # evs) = warnings evs"

fun is_debug :: "event \<Rightarrow> bool" where
  "is_debug (Pr_debug m) = True"
| "is_debug ev = False"

fun is_ifa_read :: "event \<Rightarrow> bool" where
  "is_ifa_read (Ifa_read a) = True"
| "is_ifa_read ev = False"

text \<open>The UDP payload the packet holds: its bytes after the UDP header.\<close>

definition udp_payload :: "sk_buff \<Rightarrow> nat \<Rightarrow> char list" where
  "udp_payload skb protoff = drop (protoff + sizeof_udphdr) (data skb)"

text \<open>
  The three tests of \<open>ssdp_help\<close> that come before the subnet lookup, all passed: the
  destination is the multicast address, the packet holds eight bytes of payload, and
  those are \<open>M-SEARCH\<close>.
\<close>

definition is_query :: "sk_buff \<Rightarrow> nat \<Rightarrow> nf_conn \<Rightarrow> bool" where
  "is_query skb protoff ct =
     (ip (dst_u3 (dst (tuplehash ct IP_CT_DIR_ORIGINAL))) = cpu_to_be32 SSDP_MCAST_ADDR \<and>
      8 \<le> length (udp_payload skb protoff) \<and>
      take 8 (udp_payload skb protoff) = ''M-SEARCH'')"

subsection \<open>Example flows, interfaces and packets\<close>

text \<open>
  The scenario of the documentation: a client at 192.168.1.50 queries
  239.255.255.250:1900; the reply tuple is the original one inverted.
\<close>

definition query_tuple :: nf_conntrack_tuple where
  "query_tuple =
     \<lparr>src = \<lparr>u3 = memset_0_addr\<lparr>ip := ipv4 192 168 1 50\<rparr>, u = 50000, l3num = NFPROTO_IPV4\<rparr>,
      dst = \<lparr>dst_u3 = memset_0_addr\<lparr>ip := ipv4 239 255 255 250\<rparr>, dst_u = 1900,
             protonum = IPPROTO_UDP, dir = 0\<rparr>\<rparr>"

definition reply_tuple :: nf_conntrack_tuple where
  "reply_tuple =
     \<lparr>src = \<lparr>u3 = memset_0_addr\<lparr>ip := ipv4 239 255 255 250\<rparr>, u = 1900, l3num = NFPROTO_IPV4\<rparr>,
      dst = \<lparr>dst_u3 = memset_0_addr\<lparr>ip := ipv4 192 168 1 50\<rparr>, dst_u = 50000,
             protonum = IPPROTO_UDP, dir = 1\<rparr>\<rparr>"

fun query_tuplehash :: "ip_conntrack_dir \<Rightarrow> nf_conntrack_tuple" where
  "query_tuplehash IP_CT_DIR_ORIGINAL = query_tuple"
| "query_tuplehash IP_CT_DIR_REPLY = reply_tuple"

definition query_ct :: nf_conn where
  "query_ct = \<lparr>tuplehash = query_tuplehash\<rparr>"

text \<open>A flow to a unicast address, on the same port.\<close>

fun unicast_tuplehash :: "ip_conntrack_dir \<Rightarrow> nf_conntrack_tuple" where
  "unicast_tuplehash IP_CT_DIR_ORIGINAL =
     query_tuple\<lparr>dst := (dst query_tuple)\<lparr>dst_u3 := memset_0_addr\<lparr>ip := ipv4 192 168 1 1\<rparr>\<rparr>\<rparr>"
| "unicast_tuplehash IP_CT_DIR_REPLY =
     reply_tuple\<lparr>src := (src reply_tuple)\<lparr>u3 := memset_0_addr\<lparr>ip := ipv4 192 168 1 1\<rparr>\<rparr>\<rparr>"

definition unicast_ct :: nf_conn where
  "unicast_ct = \<lparr>tuplehash = unicast_tuplehash\<rparr>"

definition ifaddr :: "be32 \<Rightarrow> be32 \<Rightarrow> in_ifaddr" where
  "ifaddr a m = \<lparr>ifa_local = a, ifa_mask = m, ifa_label = ''eth0''\<rparr>"

definition eth0 :: "in_ifaddr list \<Rightarrow> net_device" where
  "eth0 as = \<lparr>name = ''eth0'', in_dev = Some \<lparr>ifa_list = as\<rparr>\<rparr>"

definition eth0_unconfigured :: net_device where
  "eth0_unconfigured = \<lparr>name = ''eth0'', in_dev = None\<rparr>"

text \<open>A packet with a 20-byte IP header and the 8-byte UDP header before the payload.\<close>

definition packet :: "net_device \<Rightarrow> char list \<Rightarrow> sk_buff" where
  "packet d payload = \<lparr>dev = d, data = replicate 28 (CHR 0x00) @ payload\<rparr>"

definition blank_expect :: nf_conntrack_expect where
  "blank_expect =
     \<lparr>tuple = memset_0, mask_e = query_tuple, expectfn = Some 1, flags = 5, class_e = 3,
      helper = Some 7\<rparr>"

fun alloc_ok :: "nf_conn \<Rightarrow> nf_conntrack_expect option" where
  "alloc_ok ct = Some blank_expect"

fun alloc_fails :: "nf_conn \<Rightarrow> nf_conntrack_expect option" where
  "alloc_fails ct = None"

section \<open>Properties\<close>

subsection \<open>The constants and the payload comparison\<close>

lemma SSDP_M_SEARCH_SIZE_8: "SSDP_M_SEARCH_SIZE = 8"
  by (simp add: SSDP_M_SEARCH_SIZE_def SSDP_M_SEARCH_def)

lemma mcast_addr: "cpu_to_be32 SSDP_MCAST_ADDR = ipv4 239 255 255 250"
  by (simp add: cpu_to_be32_def SSDP_MCAST_ADDR_def ipv4_def)

lemma memcmp_bytes_eq_0:
  "length xs = length ys \<Longrightarrow> (memcmp_bytes xs ys = 0) = (xs = ys)"
  by (induction xs ys rule: memcmp_bytes.induct) auto

lemma skb_header_pointer_payload:
  "skb_header_pointer skb (protoff + sizeof_udphdr) SSDP_M_SEARCH_SIZE =
     (if 8 \<le> length (udp_payload skb protoff)
      then Some (take 8 (udp_payload skb protoff)) else None)"
  by (auto simp: skb_header_pointer_def udp_payload_def SSDP_M_SEARCH_SIZE_8)

lemma memcmp_header:
  "8 \<le> length p \<Longrightarrow>
   memcmp (take 8 p) SSDP_M_SEARCH SSDP_M_SEARCH_SIZE =
     Some (memcmp_bytes (take 8 p) ''M-SEARCH'')"
  by (simp add: memcmp_def SSDP_M_SEARCH_SIZE_8 SSDP_M_SEARCH_def)

lemma memcmp_header_0:
  "8 \<le> length p \<Longrightarrow>
   (memcmp_bytes (take 8 p) ''M-SEARCH'' = 0) = (take 8 p = ''M-SEARCH'')"
  by (rule memcmp_bytes_eq_0) simp

lemma memcmp_M_SEARCH: "memcmp ''M-SEARCH'' SSDP_M_SEARCH SSDP_M_SEARCH_SIZE = Some 0"
  by (simp add: memcmp_def SSDP_M_SEARCH_SIZE_8 SSDP_M_SEARCH_def)

lemma udp_payload_packet: "udp_payload (packet d p) 20 = p"
  by (simp add: udp_payload_def packet_def sizeof_udphdr_def)

subsection \<open>The four ways through ssdp\_help\<close>

lemma ssdp_help_not_mcast:
  "ip (dst_u3 (dst (tuplehash ct IP_CT_DIR_ORIGINAL))) \<noteq> cpu_to_be32 SSDP_MCAST_ADDR \<Longrightarrow>
   ssdp_help al skb protoff ct ctinfo =
     (Inr NF_ACCEPT,
      [flow_debug (tuplehash ct IP_CT_DIR_ORIGINAL), Pr_debug Destination_not_multicast])"
  by (simp add: ssdp_help_def Let_def)

lemma ssdp_help_short:
  "ip (dst_u3 (dst (tuplehash ct IP_CT_DIR_ORIGINAL))) = cpu_to_be32 SSDP_MCAST_ADDR \<Longrightarrow>
   length (udp_payload skb protoff) < 8 \<Longrightarrow>
   ssdp_help al skb protoff ct ctinfo =
     (Inr NF_ACCEPT, [flow_debug (tuplehash ct IP_CT_DIR_ORIGINAL), Pr_debug Payload_too_small])"
  by (simp add: ssdp_help_def Let_def skb_header_pointer_payload)

lemma ssdp_help_mismatch:
  "ip (dst_u3 (dst (tuplehash ct IP_CT_DIR_ORIGINAL))) = cpu_to_be32 SSDP_MCAST_ADDR \<Longrightarrow>
   8 \<le> length (udp_payload skb protoff) \<Longrightarrow>
   take 8 (udp_payload skb protoff) \<noteq> ''M-SEARCH'' \<Longrightarrow>
   ssdp_help al skb protoff ct ctinfo =
     (Inr NF_ACCEPT,
      [flow_debug (tuplehash ct IP_CT_DIR_ORIGINAL), Pr_debug Payload_not_M_SEARCH])"
  by (simp add: ssdp_help_def Let_def skb_header_pointer_payload memcmp_header memcmp_header_0)

lemma ssdp_help_query:
  "is_query skb protoff ct \<Longrightarrow>
   ssdp_help al skb protoff ct ctinfo =
     (case ssdp_src_netmask skb (tuplehash ct IP_CT_DIR_ORIGINAL) of
        (netmask, ev1) \<Rightarrow>
          if netmask = 0
          then (Inr NF_DROP, flow_debug (tuplehash ct IP_CT_DIR_ORIGINAL) # ev1)
          else (case al ct of
                  None \<Rightarrow>
                    (Inr NF_DROP,
                     flow_debug (tuplehash ct IP_CT_DIR_ORIGINAL) # ev1 @
                     [Nf_ct_expect_alloc False, Pr_warn Memory_allocation_failure])
                | Some expect \<Rightarrow>
                    (Inr NF_ACCEPT,
                     flow_debug (tuplehash ct IP_CT_DIR_ORIGINAL) # ev1 @
                     [Nf_ct_expect_alloc True,
                      Nf_ct_expect_related (fill_expect expect ct netmask) 0,
                      Nf_ct_expect_put (fill_expect expect ct netmask)])))"
  by (simp add: is_query_def ssdp_help_def Let_def skb_header_pointer_payload memcmp_M_SEARCH
           split: prod.splits option.splits)

lemma ssdp_help_no_query:
  assumes "\<not> is_query skb protoff ct"
  shows "\<exists>m. ssdp_help al skb protoff ct ctinfo =
           (Inr NF_ACCEPT, [flow_debug (tuplehash ct IP_CT_DIR_ORIGINAL), Pr_debug m])"
proof (cases "ip (dst_u3 (dst (tuplehash ct IP_CT_DIR_ORIGINAL))) = cpu_to_be32 SSDP_MCAST_ADDR")
  case False
  then show ?thesis by (simp add: ssdp_help_not_mcast)
next
  case mcast: True
  show ?thesis
  proof (cases "length (udp_payload skb protoff) < 8")
    case True
    with mcast show ?thesis by (simp add: ssdp_help_short)
  next
    case False
    then have len: "8 \<le> length (udp_payload skb protoff)" by simp
    with assms mcast have "take 8 (udp_payload skb protoff) \<noteq> ''M-SEARCH''"
      by (simp add: is_query_def)
    with mcast len show ?thesis by (simp add: ssdp_help_mismatch)
  qed
qed

subsection \<open>Reading the calls of a run\<close>

lemma registered_append: "registered (xs @ ys) = registered xs @ registered ys"
  by (induction xs rule: registered.induct) auto

lemma allocations_append: "allocations (xs @ ys) = allocations xs + allocations ys"
  by (induction xs rule: allocations.induct) auto

lemma warnings_append: "warnings (xs @ ys) = warnings xs @ warnings ys"
  by (induction xs rule: warnings.induct) auto

lemma flow_debug_quiet:
  "registered (flow_debug t # evs) = registered evs"
  "allocations (flow_debug t # evs) = allocations evs"
  "warnings (flow_debug t # evs) = warnings evs"
  "is_debug (flow_debug t)"
  by (simp_all add: flow_debug_def)

subsection \<open>The loop and the lookup\<close>

lemma ifa_loop_find:
  "fst (ifa_loop as s) =
     (case find (\<lambda>a. ifa_local a = s) as of None \<Rightarrow> 0 | Some a \<Rightarrow> ifa_mask a)"
  by (induction as) (auto split: prod.splits)

lemma ifa_loop_quiet:
  "registered (snd (ifa_loop as s)) = []"
  "allocations (snd (ifa_loop as s)) = 0"
  "warnings (snd (ifa_loop as s)) = []"
  by (induction as) (auto split: prod.splits)

lemma ifa_loop_events:
  "ev \<in> set (snd (ifa_loop as s)) \<Longrightarrow> is_ifa_read ev \<or> is_debug ev"
  by (induction as) (auto split: prod.splits if_splits)

lemma ssdp_src_netmask_find:
  "fst (ssdp_src_netmask skb orig) =
     (case in_dev (dev skb) of
        None \<Rightarrow> 0
      | Some d \<Rightarrow>
          (case find (\<lambda>a. ifa_local a = ip (u3 (src orig))) (ifa_list d) of
             None \<Rightarrow> 0
           | Some a \<Rightarrow> ifa_mask a))"
  by (simp add: ssdp_src_netmask_def ifa_loop_find [symmetric]
           split: option.splits prod.splits)

lemma ssdp_src_netmask_quiet:
  "registered (snd (ssdp_src_netmask skb orig)) = []"
  "allocations (snd (ssdp_src_netmask skb orig)) = 0"
proof -
  have r: "\<And>d r e. ifa_loop (ifa_list d) (ip (u3 (src orig))) = (r, e) \<Longrightarrow>
             registered e = [] \<and> allocations e = 0"
    using ifa_loop_quiet(1,2) by (metis snd_conv)
  show "registered (snd (ssdp_src_netmask skb orig)) = []"
    by (auto simp: ssdp_src_netmask_def registered_append dest: r
             split: option.splits prod.splits)
  show "allocations (snd (ssdp_src_netmask skb orig)) = 0"
    by (auto simp: ssdp_src_netmask_def allocations_append dest: r
             split: option.splits prod.splits)
qed

lemma ssdp_src_netmask_warnings:
  "warnings (snd (ssdp_src_netmask skb orig)) =
     (case in_dev (dev skb) of
        None \<Rightarrow> [Device_has_no_IPv4_addresses (name (dev skb))]
      | Some d \<Rightarrow>
          if fst (ssdp_src_netmask skb orig) = 0
          then [Source_address_not_assigned (ip (u3 (src orig))) (name (dev skb))]
          else [])"
proof -
  have w: "\<And>d r e. ifa_loop (ifa_list d) (ip (u3 (src orig))) = (r, e) \<Longrightarrow> warnings e = []"
    using ifa_loop_quiet(3) by (metis snd_conv)
  show ?thesis
    by (auto simp: ssdp_src_netmask_def warnings_append dest: w
             split: option.splits prod.splits)
qed

subsection \<open>Addresses of the examples\<close>

lemma ipv4_simps:
  "ipv4 192 168 1 1 \<noteq> ipv4 239 255 255 250"
  "ipv4 192 168 1 50 \<noteq> ipv4 239 255 255 250"
  "ipv4 192 168 1 50 \<noteq> ipv4 10 0 0 1"
  "ipv4 10 0 0 1 \<noteq> ipv4 192 168 1 50"
  "ipv4 255 255 255 0 \<noteq> 0"
  "ipv4 255 255 0 0 \<noteq> 0"
  "ipv4 255 255 255 0 \<noteq> ipv4 255 255 0 0"
  "ipv4 0 0 0 0 = 0"
  by (simp_all add: ipv4_def)

subsection \<open>No fault, and what the result depends on\<close>

lemma ssdp_help_no_fault: "fst (ssdp_help al skb protoff ct ctinfo) \<noteq> Inl f"
proof (cases "is_query skb protoff ct")
  case True
  then show ?thesis
    by (simp add: ssdp_help_query split: prod.splits option.splits)
next
  case False
  from ssdp_help_no_query [OF this, of al ctinfo]
  obtain m where "ssdp_help al skb protoff ct ctinfo =
      (Inr NF_ACCEPT, [flow_debug (tuplehash ct IP_CT_DIR_ORIGINAL), Pr_debug m])" by blast
  then show ?thesis by simp
qed

lemma ssdp_src_netmask_dev:
  "dev skb' = dev skb \<Longrightarrow> ssdp_src_netmask skb' orig = ssdp_src_netmask skb orig"
  unfolding ssdp_src_netmask_def by (simp split: option.splits prod.splits)

lemma ssdp_help_prefix:
  assumes "dev skb' = dev skb"
    and "take 8 (udp_payload skb' protoff') = take 8 (udp_payload skb protoff)"
  shows "ssdp_help al skb' protoff' ct ctinfo = ssdp_help al skb protoff ct ctinfo"
proof -
  have "length (take 8 (udp_payload skb' protoff')) = length (take 8 (udp_payload skb protoff))"
    using assms(2) by (rule arg_cong)
  then have "min (length (udp_payload skb' protoff')) 8 = min (length (udp_payload skb protoff)) 8"
    by (simp only: length_take)
  then have len: "(8 \<le> length (udp_payload skb' protoff')) = (8 \<le> length (udp_payload skb protoff))"
    by arith
  have nm: "ssdp_src_netmask skb' (tuplehash ct IP_CT_DIR_ORIGINAL) =
            ssdp_src_netmask skb (tuplehash ct IP_CT_DIR_ORIGINAL)"
    using assms(1) by (rule ssdp_src_netmask_dev)
  have hp: "skb_header_pointer skb' (protoff' + sizeof_udphdr) SSDP_M_SEARCH_SIZE =
            skb_header_pointer skb (protoff + sizeof_udphdr) SSDP_M_SEARCH_SIZE"
    by (simp add: skb_header_pointer_payload len assms(2))
  show ?thesis unfolding ssdp_help_def Let_def hp nm by (rule refl)
qed

lemma ssdp_src_netmask_starts:
  "\<exists>evs. snd (ssdp_src_netmask skb orig) = In_dev_get (in_dev (dev skb) \<noteq> None) # evs"
  by (simp add: ssdp_src_netmask_def split: option.splits prod.splits)

lemma lookup_iff_query:
  "(\<exists>ok. In_dev_get ok \<in> set (snd (ssdp_help al skb protoff ct ctinfo))) =
   is_query skb protoff ct"
proof (cases "is_query skb protoff ct")
  case True
  obtain evs where evs: "snd (ssdp_src_netmask skb (tuplehash ct IP_CT_DIR_ORIGINAL)) =
      In_dev_get (in_dev (dev skb) \<noteq> None) # evs"
    using ssdp_src_netmask_starts by blast
  then have "In_dev_get (in_dev (dev skb) \<noteq> None) \<in> set (snd (ssdp_help al skb protoff ct ctinfo))"
    using True by (auto simp: ssdp_help_query split: prod.splits option.splits)
  with True show ?thesis by blast
next
  case False
  from ssdp_help_no_query [OF this, of al ctinfo]
  obtain m where "ssdp_help al skb protoff ct ctinfo =
      (Inr NF_ACCEPT, [flow_debug (tuplehash ct IP_CT_DIR_ORIGINAL), Pr_debug m])" by blast
  with False show ?thesis by (simp add: flow_debug_def)
qed

subsection \<open>The example flow and device\<close>

lemma dev_packet: "dev (packet d p) = d"
  by (simp add: packet_def)

lemma ssdp_src_netmask_no_dev:
  "in_dev (dev skb) = None \<Longrightarrow>
   ssdp_src_netmask skb orig =
     (0, [In_dev_get False, Pr_warn (Device_has_no_IPv4_addresses (name (dev skb)))])"
  by (simp add: ssdp_src_netmask_def)

lemma query_ct_simps:
  "tuplehash query_ct IP_CT_DIR_ORIGINAL = query_tuple"
  "tuplehash query_ct IP_CT_DIR_REPLY = reply_tuple"
  by (simp_all add: query_ct_def)

lemma query_tuple_simps:
  "ip (u3 (src query_tuple)) = ipv4 192 168 1 50"
  "ip (dst_u3 (dst query_tuple)) = ipv4 239 255 255 250"
  "flow_debug query_tuple =
     Pr_debug (Help_flow (ipv4 192 168 1 50) 50000 (ipv4 239 255 255 250) 1900)"
  by (simp_all add: query_tuple_def flow_debug_def)

lemma is_query_example:
  "8 \<le> length p \<Longrightarrow> take 8 p = ''M-SEARCH'' \<Longrightarrow> is_query (packet d p) 20 query_ct"
  by (simp add: is_query_def udp_payload_packet query_ct_simps query_tuple_simps mcast_addr)

subsection \<open>What a matched query leads to\<close>

lemma ssdp_help_query_verdict:
  "is_query skb protoff ct \<Longrightarrow>
   fst (ssdp_help al skb protoff ct ctinfo) =
     (if fst (ssdp_src_netmask skb (tuplehash ct IP_CT_DIR_ORIGINAL)) = 0 \<or> al ct = None
      then Inr NF_DROP else Inr NF_ACCEPT)"
  by (simp add: ssdp_help_query split: prod.splits option.splits)

lemma ssdp_help_query_registered:
  "is_query skb protoff ct \<Longrightarrow>
   registered (snd (ssdp_help al skb protoff ct ctinfo)) =
     (if fst (ssdp_src_netmask skb (tuplehash ct IP_CT_DIR_ORIGINAL)) = 0 then []
      else (case al ct of
              None \<Rightarrow> []
            | Some expect \<Rightarrow>
                [fill_expect expect ct
                   (fst (ssdp_src_netmask skb (tuplehash ct IP_CT_DIR_ORIGINAL)))]))"
proof -
  assume q: "is_query skb protoff ct"
  obtain nm ev1 where p: "ssdp_src_netmask skb (tuplehash ct IP_CT_DIR_ORIGINAL) = (nm, ev1)"
    by (cases "ssdp_src_netmask skb (tuplehash ct IP_CT_DIR_ORIGINAL)")
  have "registered ev1 = []"
    using ssdp_src_netmask_quiet(1) [of skb "tuplehash ct IP_CT_DIR_ORIGINAL"] by (simp add: p)
  then show ?thesis
    by (simp add: ssdp_help_query [OF q] p flow_debug_quiet registered_append
             split: option.splits)
qed

lemma ssdp_help_query_allocations:
  "is_query skb protoff ct \<Longrightarrow>
   allocations (snd (ssdp_help al skb protoff ct ctinfo)) =
     (if fst (ssdp_src_netmask skb (tuplehash ct IP_CT_DIR_ORIGINAL)) = 0 then 0 else 1)"
proof -
  assume q: "is_query skb protoff ct"
  obtain nm ev1 where p: "ssdp_src_netmask skb (tuplehash ct IP_CT_DIR_ORIGINAL) = (nm, ev1)"
    by (cases "ssdp_src_netmask skb (tuplehash ct IP_CT_DIR_ORIGINAL)")
  have "allocations ev1 = 0"
    using ssdp_src_netmask_quiet(2) [of skb "tuplehash ct IP_CT_DIR_ORIGINAL"] by (simp add: p)
  then show ?thesis
    by (simp add: ssdp_help_query [OF q] p flow_debug_quiet allocations_append
             split: option.splits)
qed

lemma ssdp_help_query_warnings:
  "is_query skb protoff ct \<Longrightarrow>
   warnings (snd (ssdp_help al skb protoff ct ctinfo)) =
     warnings (snd (ssdp_src_netmask skb (tuplehash ct IP_CT_DIR_ORIGINAL))) @
     (if fst (ssdp_src_netmask skb (tuplehash ct IP_CT_DIR_ORIGINAL)) \<noteq> 0 \<and> al ct = None
      then [Memory_allocation_failure] else [])"
  by (simp add: ssdp_help_query flow_debug_quiet warnings_append
           split: prod.splits option.splits)

lemma ssdp_help_registered_cases:
  "e \<in> set (registered (snd (ssdp_help al skb protoff ct ctinfo))) \<Longrightarrow>
   \<exists>expect netmask. e = fill_expect expect ct netmask \<and> netmask \<noteq> 0"
proof (cases "is_query skb protoff ct")
  case True
  assume "e \<in> set (registered (snd (ssdp_help al skb protoff ct ctinfo)))"
  with True show ?thesis
    by (auto simp: ssdp_help_query_registered split: if_splits option.splits)
next
  case False
  assume e: "e \<in> set (registered (snd (ssdp_help al skb protoff ct ctinfo)))"
  from ssdp_help_no_query [OF False, of al ctinfo]
  obtain m where "ssdp_help al skb protoff ct ctinfo =
      (Inr NF_ACCEPT, [flow_debug (tuplehash ct IP_CT_DIR_ORIGINAL), Pr_debug m])" by blast
  with e show ?thesis by (simp add: flow_debug_quiet)
qed

subsection \<open>The fields of the expectation\<close>

lemma fill_expect_tuple:
  "tuple (fill_expect expect ct netmask) =
     (tuplehash ct IP_CT_DIR_REPLY)\<lparr>src := (src (tuplehash ct IP_CT_DIR_REPLY))
        \<lparr>u3 := (u3 (src (tuplehash ct IP_CT_DIR_REPLY)))
           \<lparr>ip := ip (dst_u3 (dst (tuplehash ct IP_CT_DIR_REPLY)))\<rparr>\<rparr>\<rparr>"
  by (simp add: fill_expect_def Let_def)

lemma fill_expect_mask:
  "mask_e (fill_expect expect ct netmask) =
     \<lparr>src = \<lparr>u3 = \<lparr>ip = netmask, all1 = 0, all2 = 0, all3 = 0\<rparr>, u = 0xffff, l3num = 0\<rparr>,
      dst = \<lparr>dst_u3 = \<lparr>ip = 0, all1 = 0, all2 = 0, all3 = 0\<rparr>, dst_u = 0, protonum = 0,
             dir = 0\<rparr>\<rparr>"
  by (simp add: fill_expect_def Let_def memset_0_def memset_0_addr_def)

lemma fill_expect_rest:
  "expectfn (fill_expect expect ct netmask) = None"
  "flags (fill_expect expect ct netmask) = 0"
  "class_e (fill_expect expect ct netmask) = NF_CT_EXPECT_CLASS_DEFAULT"
  "helper (fill_expect expect ct netmask) = None"
  by (simp_all add: fill_expect_def Let_def)

subsection \<open>The documented scenario, evaluated\<close>

lemma example_netmask:
  "ssdp_src_netmask (packet (eth0 [ifaddr (ipv4 192 168 1 50) (ipv4 255 255 255 0)]) p)
     query_tuple =
   (ipv4 255 255 255 0,
    [In_dev_get True, Ifa_read (ifaddr (ipv4 192 168 1 50) (ipv4 255 255 255 0)),
     Pr_debug (Found_netmask (ipv4 255 255 255 0) (ipv4 192 168 1 50) ''eth0''),
     In_dev_put])"
  by (simp add: ssdp_src_netmask_def dev_packet eth0_def ifaddr_def query_tuple_simps ipv4_simps)

lemma example_is_query:
  "is_query (packet d ''M-SEARCH * HTTP/1.1'') 20 query_ct"
  by (rule is_query_example) simp_all

lemma example_registered:
  "registered (snd (ssdp_help alloc_ok
      (packet (eth0 [ifaddr (ipv4 192 168 1 50) (ipv4 255 255 255 0)]) ''M-SEARCH * HTTP/1.1'')
      20 query_ct IP_CT_NEW)) =
   [fill_expect blank_expect query_ct (ipv4 255 255 255 0)]"
  by (simp add: ssdp_help_query_registered [OF example_is_query] query_ct_simps example_netmask
        ipv4_simps)

lemma example_verdict:
  "fst (ssdp_help alloc_ok
      (packet (eth0 [ifaddr (ipv4 192 168 1 50) (ipv4 255 255 255 0)]) ''M-SEARCH * HTTP/1.1'')
      20 query_ct IP_CT_NEW) = Inr NF_ACCEPT"
  by (simp add: ssdp_help_query_verdict [OF example_is_query] query_ct_simps example_netmask
        ipv4_simps)

lemma reply_tuple_simps:
  "ip (u3 (src reply_tuple)) = ipv4 239 255 255 250"
  "ip (dst_u3 (dst reply_tuple)) = ipv4 192 168 1 50"
  by (simp_all add: reply_tuple_def)

subsection \<open>Failed lookups\<close>

lemma find_local_None:
  "(find (\<lambda>a. ifa_local a = s) as = None) = (s \<notin> ifa_local ` set as)"
  by (auto simp: find_None_iff)

lemma ssdp_src_netmask_not_found:
  "in_dev (dev skb) = Some d \<Longrightarrow> ip (u3 (src orig)) \<notin> ifa_local ` set (ifa_list d) \<Longrightarrow>
   fst (ssdp_src_netmask skb orig) = 0"
  by (simp add: ssdp_src_netmask_find find_local_None [symmetric])

lemma ssdp_help_failed_lookup:
  assumes "is_query skb protoff ct"
    and "fst (ssdp_src_netmask skb (tuplehash ct IP_CT_DIR_ORIGINAL)) = 0"
  shows "fst (ssdp_help al skb protoff ct ctinfo) = Inr NF_DROP"
    and "registered (snd (ssdp_help al skb protoff ct ctinfo)) = []"
    and "allocations (snd (ssdp_help al skb protoff ct ctinfo)) = 0"
    and "warnings (snd (ssdp_help al skb protoff ct ctinfo)) =
           warnings (snd (ssdp_src_netmask skb (tuplehash ct IP_CT_DIR_ORIGINAL)))"
  using assms(2)
  by (simp_all add: ssdp_help_query_verdict [OF assms(1)]
        ssdp_help_query_registered [OF assms(1)] ssdp_help_query_allocations [OF assms(1)]
        ssdp_help_query_warnings [OF assms(1)])

lemma udp_payload_dev_update: "udp_payload (skb\<lparr>dev := x\<rparr>) protoff = udp_payload skb protoff"
  by (simp add: udp_payload_def)

lemma is_query_dev_update: "is_query (skb\<lparr>dev := x\<rparr>) protoff ct = is_query skb protoff ct"
  by (simp add: is_query_def udp_payload_dev_update)

subsection \<open>The order of the calls of the lookup\<close>

lemma ifa_loop_no_refcount:
  "In_dev_put \<notin> set (snd (ifa_loop l s))"
  "In_dev_get ok \<notin> set (snd (ifa_loop l s))"
  using ifa_loop_events [of In_dev_put l s] ifa_loop_events [of "In_dev_get ok" l s]
  by auto

lemma nothing_after_last:
  "x \<notin> set ys \<Longrightarrow> pre @ x # post = ys @ [x] \<Longrightarrow> post = []"
  by (cases post rule: rev_cases) auto

lemma ssdp_src_netmask_trace:
  assumes "in_dev (dev skb) = Some d"
  shows "\<exists>evs. snd (ssdp_src_netmask skb orig) = In_dev_get True # evs @ [In_dev_put] \<and>
               In_dev_put \<notin> set evs \<and> In_dev_get True \<notin> set evs \<and>
               In_dev_get False \<notin> set evs"
proof -
  obtain ret evs where l: "ifa_loop (ifa_list d) (ip (u3 (src orig))) = (ret, evs)"
    by (cases "ifa_loop (ifa_list d) (ip (u3 (src orig)))")
  have n: "In_dev_put \<notin> set evs" "In_dev_get True \<notin> set evs" "In_dev_get False \<notin> set evs"
    using ifa_loop_no_refcount [where l = "ifa_list d" and s = "ip (u3 (src orig))"]
    by (simp_all add: l)
  let ?w = "if ret = 0
      then [Pr_warn (Source_address_not_assigned (ip (u3 (src orig))) (name (dev skb)))]
      else []"
  have "snd (ssdp_src_netmask skb orig) = In_dev_get True # (evs @ ?w) @ [In_dev_put]"
    by (simp add: ssdp_src_netmask_def assms l)
  moreover have "In_dev_put \<notin> set (evs @ ?w)" "In_dev_get True \<notin> set (evs @ ?w)"
    "In_dev_get False \<notin> set (evs @ ?w)"
    using n by simp_all
  ultimately show ?thesis by blast
qed

lemma ifa_loop_first_match:
  "\<forall>b\<in>set pre. ifa_local b \<noteq> s \<Longrightarrow> ifa_local a = s \<Longrightarrow>
   ifa_loop (pre @ a # post) s =
     (ifa_mask a,
      map Ifa_read pre @ [Ifa_read a, Pr_debug (Found_netmask (ifa_mask a) s (ifa_label a))])"
  by (induction pre) auto

lemma ssdp_src_netmask_in_dev_update:
  "ssdp_src_netmask (skb\<lparr>dev := (dev skb)\<lparr>in_dev := Some d\<rparr>\<rparr>) orig =
     (case ifa_loop (ifa_list d) (ip (u3 (src orig))) of
        (ret, evs) \<Rightarrow>
          (ret,
           In_dev_get True # evs @
           (if ret = 0
            then [Pr_warn (Source_address_not_assigned (ip (u3 (src orig))) (name (dev skb)))]
            else []) @
           [In_dev_put]))"
  by (simp add: ssdp_src_netmask_def split: prod.splits)

section \<open>The claims\<close>

subsection \<open>Packets that are not for the multicast address\<close>

text \<open>
  Claim C3. For every packet whose original-direction destination address is not
  239.255.255.250, \<open>ssdp_help\<close> returns \<open>NF_ACCEPT\<close>; it allocates no expectation,
  registers none, and touches nothing else: the only calls it makes are its two debug
  messages.
\<close>

theorem non_multicast_is_accepted_untouched:
  assumes "ip (dst_u3 (dst (tuplehash ct IP_CT_DIR_ORIGINAL))) \<noteq> ipv4 239 255 255 250"
  shows "fst (ssdp_help al skb protoff ct ctinfo) = Inr NF_ACCEPT \<and>
         allocations (snd (ssdp_help al skb protoff ct ctinfo)) = 0 \<and>
         registered (snd (ssdp_help al skb protoff ct ctinfo)) = [] \<and>
         snd (ssdp_help al skb protoff ct ctinfo) =
           [flow_debug (tuplehash ct IP_CT_DIR_ORIGINAL), Pr_debug Destination_not_multicast] \<and>
         list_all is_debug (snd (ssdp_help al skb protoff ct ctinfo))"
proof -
  from assms
  have "ip (dst_u3 (dst (tuplehash ct IP_CT_DIR_ORIGINAL))) \<noteq> cpu_to_be32 SSDP_MCAST_ADDR"
    by (simp add: mcast_addr)
  then have "ssdp_help al skb protoff ct ctinfo =
     (Inr NF_ACCEPT,
      [flow_debug (tuplehash ct IP_CT_DIR_ORIGINAL), Pr_debug Destination_not_multicast])"
    by (rule ssdp_help_not_mcast)
  then show ?thesis by (simp add: flow_debug_quiet)
qed

theorem non_multicast_is_accepted_untouched_witness:
  "ip (dst_u3 (dst (tuplehash unicast_ct IP_CT_DIR_ORIGINAL))) \<noteq> ipv4 239 255 255 250 \<and>
   ssdp_help alloc_ok (packet (eth0 [ifaddr (ipv4 192 168 1 50) (ipv4 255 255 255 0)])
       ''M-SEARCH * HTTP/1.1'') 20 unicast_ct IP_CT_NEW =
     (Inr NF_ACCEPT,
      [Pr_debug (Help_flow (ipv4 192 168 1 50) 50000 (ipv4 192 168 1 1) 1900),
       Pr_debug Destination_not_multicast])"
proof -
  have h: "ip (dst_u3 (dst (tuplehash unicast_ct IP_CT_DIR_ORIGINAL))) \<noteq> ipv4 239 255 255 250"
    by (simp add: unicast_ct_def memset_0_addr_def ipv4_def)
  have f: "flow_debug (tuplehash unicast_ct IP_CT_DIR_ORIGINAL) =
      Pr_debug (Help_flow (ipv4 192 168 1 50) 50000 (ipv4 192 168 1 1) 1900)"
    by (simp add: flow_debug_def unicast_ct_def query_tuple_def memset_0_addr_def)
  show ?thesis
    using h f non_multicast_is_accepted_untouched [OF h, of alloc_ok
      "packet (eth0 [ifaddr (ipv4 192 168 1 50) (ipv4 255 255 255 0)]) ''M-SEARCH * HTTP/1.1''"
      20 IP_CT_NEW]
    by (simp add: prod_eq_iff)
qed

subsection \<open>The payload comparison\<close>

text \<open>
  Claim C4. A payload shorter than 8 bytes, or one whose first 8 bytes are not
  \<open>M-SEARCH\<close>, is accepted and no expectation is created (first conjunct). The comparison
  never reads past the bytes the packet holds: the out-of-bounds branch of the model is
  never taken (second conjunct). Only the first 8 bytes of the payload are inspected: two
  packets on the same device that agree on them are treated alike (third conjunct). The
  subnet lookup is entered exactly when the destination is the multicast address and the
  payload has at least 8 bytes that are \<open>M-SEARCH\<close> (fourth conjunct); so the 9-byte
  payload \<open>M-SEARCH\<close> followed by a space matches, and the 7-byte \<open>M-SEARC\<close> does not.
\<close>

theorem payload_match_is_safe:
  "(length (udp_payload skb protoff) < 8 \<or> take 8 (udp_payload skb protoff) \<noteq> ''M-SEARCH'' \<longrightarrow>
      fst (ssdp_help al skb protoff ct ctinfo) = Inr NF_ACCEPT \<and>
      allocations (snd (ssdp_help al skb protoff ct ctinfo)) = 0 \<and>
      registered (snd (ssdp_help al skb protoff ct ctinfo)) = [] \<and>
      list_all is_debug (snd (ssdp_help al skb protoff ct ctinfo))) \<and>
   fst (ssdp_help al skb protoff ct ctinfo) \<noteq> Inl Out_of_bounds_read \<and>
   (dev skb' = dev skb \<and> take 8 (udp_payload skb' protoff') = take 8 (udp_payload skb protoff) \<longrightarrow>
      ssdp_help al skb' protoff' ct ctinfo = ssdp_help al skb protoff ct ctinfo) \<and>
   ((\<exists>ok. In_dev_get ok \<in> set (snd (ssdp_help al skb protoff ct ctinfo))) =
      (ip (dst_u3 (dst (tuplehash ct IP_CT_DIR_ORIGINAL))) = ipv4 239 255 255 250 \<and>
       8 \<le> length (udp_payload skb protoff) \<and>
       take 8 (udp_payload skb protoff) = ''M-SEARCH''))"
proof (intro conjI impI)
  assume "length (udp_payload skb protoff) < 8 \<or> take 8 (udp_payload skb protoff) \<noteq> ''M-SEARCH''"
  then have "\<not> is_query skb protoff ct" by (auto simp: is_query_def)
  from ssdp_help_no_query [OF this, of al ctinfo]
  obtain m where m: "ssdp_help al skb protoff ct ctinfo =
      (Inr NF_ACCEPT, [flow_debug (tuplehash ct IP_CT_DIR_ORIGINAL), Pr_debug m])" by blast
  show "fst (ssdp_help al skb protoff ct ctinfo) = Inr NF_ACCEPT" by (simp add: m)
  show "allocations (snd (ssdp_help al skb protoff ct ctinfo)) = 0"
    by (simp add: m flow_debug_quiet)
  show "registered (snd (ssdp_help al skb protoff ct ctinfo)) = []"
    by (simp add: m flow_debug_quiet)
  show "list_all is_debug (snd (ssdp_help al skb protoff ct ctinfo))"
    by (simp add: m flow_debug_quiet)
next
  show "fst (ssdp_help al skb protoff ct ctinfo) \<noteq> Inl Out_of_bounds_read"
    by (rule ssdp_help_no_fault)
next
  assume "dev skb' = dev skb \<and> take 8 (udp_payload skb' protoff') = take 8 (udp_payload skb protoff)"
  then have "dev skb' = dev skb"
    and "take 8 (udp_payload skb' protoff') = take 8 (udp_payload skb protoff)"
    by blast+
  then show "ssdp_help al skb' protoff' ct ctinfo = ssdp_help al skb protoff ct ctinfo"
    by (rule ssdp_help_prefix)
next
  show "(\<exists>ok. In_dev_get ok \<in> set (snd (ssdp_help al skb protoff ct ctinfo))) =
      (ip (dst_u3 (dst (tuplehash ct IP_CT_DIR_ORIGINAL))) = ipv4 239 255 255 250 \<and>
       8 \<le> length (udp_payload skb protoff) \<and>
       take 8 (udp_payload skb protoff) = ''M-SEARCH'')"
    unfolding lookup_iff_query by (simp add: is_query_def mcast_addr)
qed

theorem payload_match_is_safe_witness:
  "length (udp_payload (packet eth0_unconfigured ''M-SEARC'') 20) < 8 \<and>
   fst (ssdp_help alloc_ok (packet eth0_unconfigured ''M-SEARC'') 20 query_ct IP_CT_NEW) =
     Inr NF_ACCEPT \<and>
   registered (snd (ssdp_help alloc_ok (packet eth0_unconfigured ''M-SEARC'') 20 query_ct
     IP_CT_NEW)) = [] \<and>
   dev (packet eth0_unconfigured ''M-SEARCH'') = dev (packet eth0_unconfigured ''M-SEARCH '') \<and>
   take 8 (udp_payload (packet eth0_unconfigured ''M-SEARCH'') 20) =
     take 8 (udp_payload (packet eth0_unconfigured ''M-SEARCH '') 20) \<and>
   ssdp_help alloc_ok (packet eth0_unconfigured ''M-SEARCH'') 20 query_ct IP_CT_NEW =
     ssdp_help alloc_ok (packet eth0_unconfigured ''M-SEARCH '') 20 query_ct IP_CT_NEW \<and>
   In_dev_get False \<in> set (snd (ssdp_help alloc_ok (packet eth0_unconfigured ''M-SEARCH '') 20
     query_ct IP_CT_NEW))"
proof -
  have short: "length (udp_payload (packet eth0_unconfigured ''M-SEARC'') 20) < 8"
    by (simp add: udp_payload_packet)
  have same_dev: "dev (packet eth0_unconfigured ''M-SEARCH'') =
      dev (packet eth0_unconfigured ''M-SEARCH '')"
    by (simp add: dev_packet)
  have same: "take 8 (udp_payload (packet eth0_unconfigured ''M-SEARCH'') 20) =
      take 8 (udp_payload (packet eth0_unconfigured ''M-SEARCH '') 20)"
    by (simp add: udp_payload_packet)
  have q: "is_query (packet eth0_unconfigured ''M-SEARCH '') 20 query_ct"
    by (rule is_query_example) simp_all
  have "in_dev (dev (packet eth0_unconfigured ''M-SEARCH '')) = None"
    by (simp add: dev_packet eth0_unconfigured_def)
  then have run: "In_dev_get False \<in> set (snd (ssdp_help alloc_ok
      (packet eth0_unconfigured ''M-SEARCH '') 20 query_ct IP_CT_NEW))"
    by (simp add: ssdp_help_query [OF q] ssdp_src_netmask_no_dev)
  show ?thesis
    using short same_dev same run
      payload_match_is_safe [of "packet eth0_unconfigured ''M-SEARC''" 20 alloc_ok query_ct
        IP_CT_NEW]
      payload_match_is_safe [of "packet eth0_unconfigured ''M-SEARCH ''" 20 alloc_ok query_ct
        IP_CT_NEW "packet eth0_unconfigured ''M-SEARCH''" 20]
    by blast
qed

subsection \<open>A query that is answered with an expectation\<close>

text \<open>
  Claim C1. A well-formed query from source address \<open>S\<close> (destination 239.255.255.250,
  payload beginning with \<open>M-SEARCH\<close>), received on an interface whose entry for \<open>S\<close>
  (the one the search finds, the first in list order) has the non-zero mask \<open>M\<close>, with
  the allocation succeeding: \<open>ssdp_help\<close> returns \<open>NF_ACCEPT\<close> and registers exactly one
  expectation; its source-address mask is \<open>M\<close>, its source-port mask is all ones, its
  class selects the helper's policy, and that policy has \<open>max_expected = 1\<close> and
  \<open>timeout = 1\<close>.
\<close>

theorem query_registers_one_expectation:
  assumes "ip (dst_u3 (dst (tuplehash ct IP_CT_DIR_ORIGINAL))) = ipv4 239 255 255 250"
    and "8 \<le> length (udp_payload skb protoff)"
    and "take 8 (udp_payload skb protoff) = ''M-SEARCH''"
    and "ip (u3 (src (tuplehash ct IP_CT_DIR_ORIGINAL))) = S"
    and "in_dev (dev skb) = Some d"
    and "find (\<lambda>a. ifa_local a = S) (ifa_list d) = Some a"
    and "ifa_mask a = M"
    and "M \<noteq> 0"
    and "al ct = Some expect"
  shows "fst (ssdp_help al skb protoff ct ctinfo) = Inr NF_ACCEPT \<and>
         (\<exists>e. registered (snd (ssdp_help al skb protoff ct ctinfo)) = [e] \<and>
              ip (u3 (src (mask_e e))) = M \<and>
              u (src (mask_e e)) = - 1 \<and>
              u (src (mask_e e)) = 0xffff \<and>
              class_e e = NF_CT_EXPECT_CLASS_DEFAULT) \<and>
         allocations (snd (ssdp_help al skb protoff ct ctinfo)) = 1 \<and>
         max_expected (expect_policy ssdp_helper) = 1 \<and>
         timeout (expect_policy ssdp_helper) = 1"
proof -
  have q: "is_query skb protoff ct"
    using assms(1-3) by (simp add: is_query_def mcast_addr)
  have nm: "fst (ssdp_src_netmask skb (tuplehash ct IP_CT_DIR_ORIGINAL)) = M"
    using assms(4-7) by (simp add: ssdp_src_netmask_find)
  have v: "fst (ssdp_help al skb protoff ct ctinfo) = Inr NF_ACCEPT"
    using assms(8,9) by (simp add: ssdp_help_query_verdict [OF q] nm)
  have r: "registered (snd (ssdp_help al skb protoff ct ctinfo)) = [fill_expect expect ct M]"
    using assms(8,9) by (simp add: ssdp_help_query_registered [OF q] nm)
  have a: "allocations (snd (ssdp_help al skb protoff ct ctinfo)) = 1"
    using assms(8) by (simp add: ssdp_help_query_allocations [OF q] nm)
  have m: "ip (u3 (src (mask_e (fill_expect expect ct M)))) = M"
    "u (src (mask_e (fill_expect expect ct M))) = - 1"
    "u (src (mask_e (fill_expect expect ct M))) = 0xffff"
    by (simp_all add: fill_expect_mask)
  have p: "max_expected (expect_policy ssdp_helper) = 1" "timeout (expect_policy ssdp_helper) = 1"
    by (simp_all add: ssdp_helper_def ssdp_policy_def)
  show ?thesis
    using v r a m p fill_expect_rest(3) [of expect ct M] by simp
qed

theorem query_registers_one_expectation_witness:
  "ip (dst_u3 (dst (tuplehash query_ct IP_CT_DIR_ORIGINAL))) = ipv4 239 255 255 250 \<and>
   take 8 (udp_payload (packet (eth0 [ifaddr (ipv4 192 168 1 50) (ipv4 255 255 255 0)])
      ''M-SEARCH * HTTP/1.1'') 20) = ''M-SEARCH'' \<and>
   find (\<lambda>a. ifa_local a = ipv4 192 168 1 50)
      [ifaddr (ipv4 192 168 1 50) (ipv4 255 255 255 0)] =
      Some (ifaddr (ipv4 192 168 1 50) (ipv4 255 255 255 0)) \<and>
   ipv4 255 255 255 0 \<noteq> 0 \<and>
   fst (ssdp_help alloc_ok (packet (eth0 [ifaddr (ipv4 192 168 1 50) (ipv4 255 255 255 0)])
      ''M-SEARCH * HTTP/1.1'') 20 query_ct IP_CT_NEW) = Inr NF_ACCEPT \<and>
   length (registered (snd (ssdp_help alloc_ok
      (packet (eth0 [ifaddr (ipv4 192 168 1 50) (ipv4 255 255 255 0)])
      ''M-SEARCH * HTTP/1.1'') 20 query_ct IP_CT_NEW))) = 1 \<and>
   ip (u3 (src (mask_e (hd (registered (snd (ssdp_help alloc_ok
      (packet (eth0 [ifaddr (ipv4 192 168 1 50) (ipv4 255 255 255 0)])
      ''M-SEARCH * HTTP/1.1'') 20 query_ct IP_CT_NEW))))))) = ipv4 255 255 255 0 \<and>
   u (src (mask_e (hd (registered (snd (ssdp_help alloc_ok
      (packet (eth0 [ifaddr (ipv4 192 168 1 50) (ipv4 255 255 255 0)])
      ''M-SEARCH * HTTP/1.1'') 20 query_ct IP_CT_NEW)))))) = 0xffff"
proof -
  have h1: "ip (dst_u3 (dst (tuplehash query_ct IP_CT_DIR_ORIGINAL))) = ipv4 239 255 255 250"
    by (simp add: query_ct_simps query_tuple_simps)
  have h2: "8 \<le> length (udp_payload (packet (eth0 [ifaddr (ipv4 192 168 1 50)
      (ipv4 255 255 255 0)]) ''M-SEARCH * HTTP/1.1'') 20)"
    by (simp add: udp_payload_packet)
  have h3: "take 8 (udp_payload (packet (eth0 [ifaddr (ipv4 192 168 1 50) (ipv4 255 255 255 0)])
      ''M-SEARCH * HTTP/1.1'') 20) = ''M-SEARCH''"
    by (simp add: udp_payload_packet)
  have h4: "ip (u3 (src (tuplehash query_ct IP_CT_DIR_ORIGINAL))) = ipv4 192 168 1 50"
    by (simp add: query_ct_simps query_tuple_simps)
  have h5: "in_dev (dev (packet (eth0 [ifaddr (ipv4 192 168 1 50) (ipv4 255 255 255 0)])
      ''M-SEARCH * HTTP/1.1'')) =
      Some \<lparr>ifa_list = [ifaddr (ipv4 192 168 1 50) (ipv4 255 255 255 0)]\<rparr>"
    by (simp add: dev_packet eth0_def)
  have h6: "find (\<lambda>a. ifa_local a = ipv4 192 168 1 50)
      (ifa_list \<lparr>ifa_list = [ifaddr (ipv4 192 168 1 50) (ipv4 255 255 255 0)]\<rparr>) =
      Some (ifaddr (ipv4 192 168 1 50) (ipv4 255 255 255 0))"
    by (simp add: ifaddr_def)
  have h7: "ifa_mask (ifaddr (ipv4 192 168 1 50) (ipv4 255 255 255 0)) = ipv4 255 255 255 0"
    by (simp add: ifaddr_def)
  have h8: "ipv4 255 255 255 0 \<noteq> 0" by (simp add: ipv4_simps)
  have h9: "alloc_ok query_ct = Some blank_expect" by simp
  show ?thesis
    using h1 h3 h6 h8
      query_registers_one_expectation [where al = alloc_ok and ct = query_ct and
        ctinfo = IP_CT_NEW, OF h1 h2 h3 h4 h5 h6 h7 h8 h9]
    by auto
qed

subsection \<open>The tuple of the expectation\<close>

text \<open>
  Claim C2, as stated, fails. In the documentation's scenario (a query from 192.168.1.50
  to 239.255.255.250, the reply tuple being the original one inverted) the helper accepts
  the packet and registers one expectation; the source address of its tuple is
  192.168.1.50, the original source, while the original destination is 239.255.255.250.
\<close>

theorem expectation_source_is_not_original_destination:
  "fst (ssdp_help alloc_ok
      (packet (eth0 [ifaddr (ipv4 192 168 1 50) (ipv4 255 255 255 0)]) ''M-SEARCH * HTTP/1.1'')
      20 query_ct IP_CT_NEW) = Inr NF_ACCEPT \<and>
   length (registered (snd (ssdp_help alloc_ok
      (packet (eth0 [ifaddr (ipv4 192 168 1 50) (ipv4 255 255 255 0)]) ''M-SEARCH * HTTP/1.1'')
      20 query_ct IP_CT_NEW))) = 1 \<and>
   ip (u3 (src (tuple (hd (registered (snd (ssdp_help alloc_ok
      (packet (eth0 [ifaddr (ipv4 192 168 1 50) (ipv4 255 255 255 0)]) ''M-SEARCH * HTTP/1.1'')
      20 query_ct IP_CT_NEW))))))) = ipv4 192 168 1 50 \<and>
   ip (dst_u3 (dst (tuplehash query_ct IP_CT_DIR_ORIGINAL))) = ipv4 239 255 255 250 \<and>
   ip (u3 (src (tuple (hd (registered (snd (ssdp_help alloc_ok
      (packet (eth0 [ifaddr (ipv4 192 168 1 50) (ipv4 255 255 255 0)]) ''M-SEARCH * HTTP/1.1'')
      20 query_ct IP_CT_NEW))))))) \<noteq>
     ip (dst_u3 (dst (tuplehash query_ct IP_CT_DIR_ORIGINAL))) \<and>
   tuple (hd (registered (snd (ssdp_help alloc_ok
      (packet (eth0 [ifaddr (ipv4 192 168 1 50) (ipv4 255 255 255 0)]) ''M-SEARCH * HTTP/1.1'')
      20 query_ct IP_CT_NEW)))) \<noteq>
     (tuplehash query_ct IP_CT_DIR_REPLY)\<lparr>src := (src (tuplehash query_ct IP_CT_DIR_REPLY))
        \<lparr>u3 := (u3 (src (tuplehash query_ct IP_CT_DIR_REPLY)))
           \<lparr>ip := ip (dst_u3 (dst (tuplehash query_ct IP_CT_DIR_ORIGINAL)))\<rparr>\<rparr>\<rparr>"
  unfolding example_verdict example_registered
  by (simp add: fill_expect_tuple query_ct_simps query_tuple_def reply_tuple_def
        memset_0_addr_def ipv4_def)

text \<open>
  Claim C2, amended. The tuple of every expectation the helper registers is the
  reply-direction tuple of the flow with its source address overwritten with the reply
  tuple's own destination address. Where the reply tuple is the original one inverted,
  that is the original source address: the address of the host that sent the query.
\<close>

theorem expectation_tuple_is_reply_from_own_destination:
  assumes "e \<in> set (registered (snd (ssdp_help al skb protoff ct ctinfo)))"
  shows "tuple e =
           (tuplehash ct IP_CT_DIR_REPLY)\<lparr>src := (src (tuplehash ct IP_CT_DIR_REPLY))
              \<lparr>u3 := (u3 (src (tuplehash ct IP_CT_DIR_REPLY)))
                 \<lparr>ip := ip (dst_u3 (dst (tuplehash ct IP_CT_DIR_REPLY)))\<rparr>\<rparr>\<rparr> \<and>
         (ip (dst_u3 (dst (tuplehash ct IP_CT_DIR_REPLY))) =
            ip (u3 (src (tuplehash ct IP_CT_DIR_ORIGINAL))) \<longrightarrow>
          ip (u3 (src (tuple e))) = ip (u3 (src (tuplehash ct IP_CT_DIR_ORIGINAL))))"
proof -
  from ssdp_help_registered_cases [OF assms]
  obtain expect netmask where "e = fill_expect expect ct netmask" by blast
  then show ?thesis by (simp add: fill_expect_tuple)
qed

theorem expectation_tuple_is_reply_from_own_destination_witness:
  "fill_expect blank_expect query_ct (ipv4 255 255 255 0) \<in> set (registered (snd (ssdp_help
      alloc_ok
      (packet (eth0 [ifaddr (ipv4 192 168 1 50) (ipv4 255 255 255 0)]) ''M-SEARCH * HTTP/1.1'')
      20 query_ct IP_CT_NEW))) \<and>
   ip (dst_u3 (dst (tuplehash query_ct IP_CT_DIR_REPLY))) =
     ip (u3 (src (tuplehash query_ct IP_CT_DIR_ORIGINAL))) \<and>
   ip (u3 (src (tuple (fill_expect blank_expect query_ct (ipv4 255 255 255 0))))) =
     ipv4 192 168 1 50 \<and>
   dst (tuple (fill_expect blank_expect query_ct (ipv4 255 255 255 0))) = dst reply_tuple \<and>
   u (src (tuple (fill_expect blank_expect query_ct (ipv4 255 255 255 0)))) = 1900"
proof -
  have h: "fill_expect blank_expect query_ct (ipv4 255 255 255 0) \<in> set (registered (snd
      (ssdp_help alloc_ok
      (packet (eth0 [ifaddr (ipv4 192 168 1 50) (ipv4 255 255 255 0)]) ''M-SEARCH * HTTP/1.1'')
      20 query_ct IP_CT_NEW)))"
    by (simp add: example_registered)
  have i: "ip (dst_u3 (dst (tuplehash query_ct IP_CT_DIR_REPLY))) =
     ip (u3 (src (tuplehash query_ct IP_CT_DIR_ORIGINAL)))"
    by (simp add: query_ct_simps query_tuple_simps reply_tuple_simps)
  have r: "u (src reply_tuple) = 1900" by (simp add: reply_tuple_def)
  show ?thesis
    using h i r expectation_tuple_is_reply_from_own_destination [OF h]
    by (simp add: query_ct_simps query_tuple_simps)
qed

subsection \<open>The mask of the expectation\<close>

text \<open>
  Claim C10. In every expectation the helper registers, the mask is zero in every field
  but the source address and the source port: the rest of the source address union, the
  layer-3 protocol number, and the whole destination part (address, port, protocol
  number, direction).
\<close>

theorem mask_constrains_source_endpoint_only:
  assumes "e \<in> set (registered (snd (ssdp_help al skb protoff ct ctinfo)))"
  shows "mask_e e =
           memset_0\<lparr>src := (src memset_0)
              \<lparr>u3 := (u3 (src memset_0))\<lparr>ip := ip (u3 (src (mask_e e)))\<rparr>,
               u := u (src (mask_e e))\<rparr>\<rparr> \<and>
         all1 (u3 (src (mask_e e))) = 0 \<and> all2 (u3 (src (mask_e e))) = 0 \<and>
         all3 (u3 (src (mask_e e))) = 0 \<and> l3num (src (mask_e e)) = 0 \<and>
         ip (dst_u3 (dst (mask_e e))) = 0 \<and> all1 (dst_u3 (dst (mask_e e))) = 0 \<and>
         all2 (dst_u3 (dst (mask_e e))) = 0 \<and> all3 (dst_u3 (dst (mask_e e))) = 0 \<and>
         dst_u (dst (mask_e e)) = 0 \<and> protonum (dst (mask_e e)) = 0 \<and>
         dir (dst (mask_e e)) = 0"
proof -
  from ssdp_help_registered_cases [OF assms]
  obtain expect netmask where "e = fill_expect expect ct netmask" by blast
  then show ?thesis by (simp add: fill_expect_mask memset_0_def memset_0_addr_def)
qed

theorem mask_constrains_source_endpoint_only_witness:
  "fill_expect blank_expect query_ct (ipv4 255 255 255 0) \<in> set (registered (snd (ssdp_help
      alloc_ok
      (packet (eth0 [ifaddr (ipv4 192 168 1 50) (ipv4 255 255 255 0)]) ''M-SEARCH * HTTP/1.1'')
      20 query_ct IP_CT_NEW))) \<and>
   mask_e blank_expect = query_tuple \<and>
   dst (mask_e (fill_expect blank_expect query_ct (ipv4 255 255 255 0))) = dst memset_0 \<and>
   l3num (src (mask_e (fill_expect blank_expect query_ct (ipv4 255 255 255 0)))) = 0 \<and>
   ip (dst_u3 (dst (mask_e (fill_expect blank_expect query_ct (ipv4 255 255 255 0))))) = 0 \<and>
   dst_u (dst (mask_e (fill_expect blank_expect query_ct (ipv4 255 255 255 0)))) = 0"
proof -
  have h: "fill_expect blank_expect query_ct (ipv4 255 255 255 0) \<in> set (registered (snd
      (ssdp_help alloc_ok
      (packet (eth0 [ifaddr (ipv4 192 168 1 50) (ipv4 255 255 255 0)]) ''M-SEARCH * HTTP/1.1'')
      20 query_ct IP_CT_NEW)))"
    by (simp add: example_registered)
  have b: "mask_e blank_expect = query_tuple" by (simp add: blank_expect_def)
  have d: "dst (mask_e (fill_expect blank_expect query_ct (ipv4 255 255 255 0))) = dst memset_0"
    by (simp add: fill_expect_mask memset_0_def memset_0_addr_def)
  show ?thesis
    using h b d mask_constrains_source_endpoint_only [OF h]
    by simp
qed

subsection \<open>A source address the interface does not have\<close>

text \<open>
  Claim C5. For a matched \<open>M-SEARCH\<close> query, if the device has no IPv4 configuration
  (\<open>in_dev_get\<close> returns \<open>NULL\<close>), or if it has one and the source address is not the
  local address of any entry of its list, \<open>ssdp_help\<close> returns \<open>NF_DROP\<close>, allocates and
  registers nothing, and emits exactly one warning; the warning of the first case is not
  that of the second.
\<close>

theorem unresolved_source_is_dropped:
  assumes "ip (dst_u3 (dst (tuplehash ct IP_CT_DIR_ORIGINAL))) = ipv4 239 255 255 250"
    and "8 \<le> length (udp_payload skb protoff)"
    and "take 8 (udp_payload skb protoff) = ''M-SEARCH''"
    and "ip (u3 (src (tuplehash ct IP_CT_DIR_ORIGINAL))) = S"
  shows "(in_dev (dev skb) = None \<longrightarrow>
            fst (ssdp_help al skb protoff ct ctinfo) = Inr NF_DROP \<and>
            registered (snd (ssdp_help al skb protoff ct ctinfo)) = [] \<and>
            allocations (snd (ssdp_help al skb protoff ct ctinfo)) = 0 \<and>
            warnings (snd (ssdp_help al skb protoff ct ctinfo)) =
              [Device_has_no_IPv4_addresses (name (dev skb))]) \<and>
         (\<forall>d. in_dev (dev skb) = Some d \<and> S \<notin> ifa_local ` set (ifa_list d) \<longrightarrow>
            fst (ssdp_help al skb protoff ct ctinfo) = Inr NF_DROP \<and>
            registered (snd (ssdp_help al skb protoff ct ctinfo)) = [] \<and>
            allocations (snd (ssdp_help al skb protoff ct ctinfo)) = 0 \<and>
            warnings (snd (ssdp_help al skb protoff ct ctinfo)) =
              [Source_address_not_assigned S (name (dev skb))]) \<and>
         Device_has_no_IPv4_addresses (name (dev skb)) \<noteq>
           Source_address_not_assigned S (name (dev skb))"
proof (intro conjI impI allI)
  have q: "is_query skb protoff ct"
    using assms(1-3) by (simp add: is_query_def mcast_addr)
  {
    assume n: "in_dev (dev skb) = None"
    then have z: "fst (ssdp_src_netmask skb (tuplehash ct IP_CT_DIR_ORIGINAL)) = 0"
      by (simp add: ssdp_src_netmask_find)
    show "fst (ssdp_help al skb protoff ct ctinfo) = Inr NF_DROP"
      by (rule ssdp_help_failed_lookup(1) [OF q z])
    show "registered (snd (ssdp_help al skb protoff ct ctinfo)) = []"
      by (rule ssdp_help_failed_lookup(2) [OF q z])
    show "allocations (snd (ssdp_help al skb protoff ct ctinfo)) = 0"
      by (rule ssdp_help_failed_lookup(3) [OF q z])
    show "warnings (snd (ssdp_help al skb protoff ct ctinfo)) =
        [Device_has_no_IPv4_addresses (name (dev skb))]"
      by (simp add: ssdp_help_failed_lookup(4) [OF q z] ssdp_src_netmask_warnings n)
  }
  {
    fix d
    assume "in_dev (dev skb) = Some d \<and> S \<notin> ifa_local ` set (ifa_list d)"
    then have d: "in_dev (dev skb) = Some d" and s: "S \<notin> ifa_local ` set (ifa_list d)"
      by blast+
    have z: "fst (ssdp_src_netmask skb (tuplehash ct IP_CT_DIR_ORIGINAL)) = 0"
      using d s assms(4) by (simp add: ssdp_src_netmask_not_found)
    show "fst (ssdp_help al skb protoff ct ctinfo) = Inr NF_DROP"
      by (rule ssdp_help_failed_lookup(1) [OF q z])
    show "registered (snd (ssdp_help al skb protoff ct ctinfo)) = []"
      by (rule ssdp_help_failed_lookup(2) [OF q z])
    show "allocations (snd (ssdp_help al skb protoff ct ctinfo)) = 0"
      by (rule ssdp_help_failed_lookup(3) [OF q z])
    show "warnings (snd (ssdp_help al skb protoff ct ctinfo)) =
        [Source_address_not_assigned S (name (dev skb))]"
      by (simp add: ssdp_help_failed_lookup(4) [OF q z] ssdp_src_netmask_warnings d z assms(4))
  }
  show "Device_has_no_IPv4_addresses (name (dev skb)) \<noteq>
      Source_address_not_assigned S (name (dev skb))"
    by simp
qed

theorem unresolved_source_is_dropped_witness:
  "in_dev (dev (packet eth0_unconfigured ''M-SEARCH * HTTP/1.1'')) = None \<and>
   fst (ssdp_help alloc_ok (packet eth0_unconfigured ''M-SEARCH * HTTP/1.1'') 20 query_ct
     IP_CT_NEW) = Inr NF_DROP \<and>
   warnings (snd (ssdp_help alloc_ok (packet eth0_unconfigured ''M-SEARCH * HTTP/1.1'') 20
     query_ct IP_CT_NEW)) = [Device_has_no_IPv4_addresses ''eth0''] \<and>
   in_dev (dev (packet (eth0 [ifaddr (ipv4 10 0 0 1) (ipv4 255 255 255 0)])
     ''M-SEARCH * HTTP/1.1'')) =
     Some \<lparr>ifa_list = [ifaddr (ipv4 10 0 0 1) (ipv4 255 255 255 0)]\<rparr> \<and>
   ipv4 192 168 1 50 \<notin> ifa_local ` set [ifaddr (ipv4 10 0 0 1) (ipv4 255 255 255 0)] \<and>
   fst (ssdp_help alloc_ok (packet (eth0 [ifaddr (ipv4 10 0 0 1) (ipv4 255 255 255 0)])
     ''M-SEARCH * HTTP/1.1'') 20 query_ct IP_CT_NEW) = Inr NF_DROP \<and>
   registered (snd (ssdp_help alloc_ok
     (packet (eth0 [ifaddr (ipv4 10 0 0 1) (ipv4 255 255 255 0)])
     ''M-SEARCH * HTTP/1.1'') 20 query_ct IP_CT_NEW)) = [] \<and>
   warnings (snd (ssdp_help alloc_ok (packet (eth0 [ifaddr (ipv4 10 0 0 1) (ipv4 255 255 255 0)])
     ''M-SEARCH * HTTP/1.1'') 20 query_ct IP_CT_NEW)) =
     [Source_address_not_assigned (ipv4 192 168 1 50) ''eth0'']"
proof -
  have h1: "ip (dst_u3 (dst (tuplehash query_ct IP_CT_DIR_ORIGINAL))) = ipv4 239 255 255 250"
    by (simp add: query_ct_simps query_tuple_simps)
  have h2: "\<And>d. 8 \<le> length (udp_payload (packet d ''M-SEARCH * HTTP/1.1'') 20)"
    by (simp add: udp_payload_packet)
  have h3: "\<And>d. take 8 (udp_payload (packet d ''M-SEARCH * HTTP/1.1'') 20) = ''M-SEARCH''"
    by (simp add: udp_payload_packet)
  have h4: "ip (u3 (src (tuplehash query_ct IP_CT_DIR_ORIGINAL))) = ipv4 192 168 1 50"
    by (simp add: query_ct_simps query_tuple_simps)
  have n: "in_dev (dev (packet eth0_unconfigured ''M-SEARCH * HTTP/1.1'')) = None"
    "name (dev (packet eth0_unconfigured ''M-SEARCH * HTTP/1.1'')) = ''eth0''"
    by (simp_all add: dev_packet eth0_unconfigured_def)
  have d: "in_dev (dev (packet (eth0 [ifaddr (ipv4 10 0 0 1) (ipv4 255 255 255 0)])
     ''M-SEARCH * HTTP/1.1'')) =
     Some \<lparr>ifa_list = [ifaddr (ipv4 10 0 0 1) (ipv4 255 255 255 0)]\<rparr>"
    "name (dev (packet (eth0 [ifaddr (ipv4 10 0 0 1) (ipv4 255 255 255 0)])
     ''M-SEARCH * HTTP/1.1'')) = ''eth0''"
    by (simp_all add: dev_packet eth0_def)
  have s: "ipv4 192 168 1 50 \<notin> ifa_local ` set [ifaddr (ipv4 10 0 0 1) (ipv4 255 255 255 0)]"
    by (simp add: ifaddr_def ipv4_simps)
  show ?thesis
    using n d s
      unresolved_source_is_dropped [where al = alloc_ok and ct = query_ct and
        ctinfo = IP_CT_NEW, OF h1 h2 h3 h4, of eth0_unconfigured]
      unresolved_source_is_dropped [where al = alloc_ok and ct = query_ct and
        ctinfo = IP_CT_NEW, OF h1 h2 h3 h4,
        of "eth0 [ifaddr (ipv4 10 0 0 1) (ipv4 255 255 255 0)]"]
    by simp
qed

subsection \<open>A netmask of zero\<close>

text \<open>
  Claim C6. When the entry of the interface for the query's source address (the entry the
  search finds) has the netmask 0.0.0.0, the lookup returns its failure value 0 and
  \<open>ssdp_help\<close> returns \<open>NF_DROP\<close> without allocating or registering an expectation.
  What the caller and the warning log see is what they see when the address is not on
  the interface at all: the same return value of the lookup, the same verdict, the same
  single warning.
\<close>

theorem zero_netmask_is_resolution_failure:
  assumes "ip (dst_u3 (dst (tuplehash ct IP_CT_DIR_ORIGINAL))) = ipv4 239 255 255 250"
    and "8 \<le> length (udp_payload skb protoff)"
    and "take 8 (udp_payload skb protoff) = ''M-SEARCH''"
    and "ip (u3 (src (tuplehash ct IP_CT_DIR_ORIGINAL))) = S"
    and "in_dev (dev skb) = Some d"
    and "find (\<lambda>a. ifa_local a = S) (ifa_list d) = Some a"
    and "ifa_mask a = 0"
  shows "fst (ssdp_src_netmask skb (tuplehash ct IP_CT_DIR_ORIGINAL)) = 0 \<and>
         fst (ssdp_help al skb protoff ct ctinfo) = Inr NF_DROP \<and>
         registered (snd (ssdp_help al skb protoff ct ctinfo)) = [] \<and>
         allocations (snd (ssdp_help al skb protoff ct ctinfo)) = 0 \<and>
         warnings (snd (ssdp_help al skb protoff ct ctinfo)) =
           [Source_address_not_assigned S (name (dev skb))] \<and>
         (\<forall>d'. S \<notin> ifa_local ` set (ifa_list d') \<longrightarrow>
            fst (ssdp_src_netmask (skb\<lparr>dev := (dev skb)\<lparr>in_dev := Some d'\<rparr>\<rparr>)
                   (tuplehash ct IP_CT_DIR_ORIGINAL)) =
              fst (ssdp_src_netmask skb (tuplehash ct IP_CT_DIR_ORIGINAL)) \<and>
            fst (ssdp_help al (skb\<lparr>dev := (dev skb)\<lparr>in_dev := Some d'\<rparr>\<rparr>) protoff ct ctinfo) =
              fst (ssdp_help al skb protoff ct ctinfo) \<and>
            registered (snd (ssdp_help al (skb\<lparr>dev := (dev skb)\<lparr>in_dev := Some d'\<rparr>\<rparr>) protoff
                   ct ctinfo)) =
              registered (snd (ssdp_help al skb protoff ct ctinfo)) \<and>
            warnings (snd (ssdp_help al (skb\<lparr>dev := (dev skb)\<lparr>in_dev := Some d'\<rparr>\<rparr>) protoff
                   ct ctinfo)) =
              warnings (snd (ssdp_help al skb protoff ct ctinfo)))"
proof -
  have q: "is_query skb protoff ct"
    using assms(1-3) by (simp add: is_query_def mcast_addr)
  have z: "fst (ssdp_src_netmask skb (tuplehash ct IP_CT_DIR_ORIGINAL)) = 0"
    using assms(4-7) by (simp add: ssdp_src_netmask_find)
  have w: "warnings (snd (ssdp_help al skb protoff ct ctinfo)) =
      [Source_address_not_assigned S (name (dev skb))]"
    by (simp add: ssdp_help_failed_lookup(4) [OF q z] ssdp_src_netmask_warnings assms(4,5) z)
  have other: "fst (ssdp_src_netmask (skb\<lparr>dev := (dev skb)\<lparr>in_dev := Some d'\<rparr>\<rparr>)
                   (tuplehash ct IP_CT_DIR_ORIGINAL)) = 0 \<and>
      fst (ssdp_help al (skb\<lparr>dev := (dev skb)\<lparr>in_dev := Some d'\<rparr>\<rparr>) protoff ct ctinfo) =
        Inr NF_DROP \<and>
      registered (snd (ssdp_help al (skb\<lparr>dev := (dev skb)\<lparr>in_dev := Some d'\<rparr>\<rparr>) protoff
        ct ctinfo)) = [] \<and>
      warnings (snd (ssdp_help al (skb\<lparr>dev := (dev skb)\<lparr>in_dev := Some d'\<rparr>\<rparr>) protoff
        ct ctinfo)) = [Source_address_not_assigned S (name (dev skb))]"
    if s: "S \<notin> ifa_local ` set (ifa_list d')" for d'
  proof -
    let ?skb = "skb\<lparr>dev := (dev skb)\<lparr>in_dev := Some d'\<rparr>\<rparr>"
    have q': "is_query ?skb protoff ct" using q by (simp add: is_query_dev_update)
    have d': "in_dev (dev ?skb) = Some d'" by simp
    have z': "fst (ssdp_src_netmask ?skb (tuplehash ct IP_CT_DIR_ORIGINAL)) = 0"
      using s assms(4) by (simp add: ssdp_src_netmask_not_found [OF d'])
    have "warnings (snd (ssdp_help al ?skb protoff ct ctinfo)) =
        [Source_address_not_assigned S (name (dev skb))]"
      by (simp add: ssdp_help_failed_lookup(4) [OF q' z'] ssdp_src_netmask_warnings z' assms(4))
    then show ?thesis
      using z' ssdp_help_failed_lookup(1) [OF q' z'] ssdp_help_failed_lookup(2) [OF q' z']
      by simp
  qed
  show ?thesis
    using z w other ssdp_help_failed_lookup(1) [OF q z] ssdp_help_failed_lookup(2) [OF q z]
      ssdp_help_failed_lookup(3) [OF q z]
    by simp
qed

theorem zero_netmask_is_resolution_failure_witness:
  "find (\<lambda>a. ifa_local a = ipv4 192 168 1 50)
      (ifa_list \<lparr>ifa_list = [ifaddr (ipv4 192 168 1 50) (ipv4 0 0 0 0)]\<rparr>) =
      Some (ifaddr (ipv4 192 168 1 50) (ipv4 0 0 0 0)) \<and>
   ifa_mask (ifaddr (ipv4 192 168 1 50) (ipv4 0 0 0 0)) = 0 \<and>
   fst (ssdp_help alloc_ok (packet (eth0 [ifaddr (ipv4 192 168 1 50) (ipv4 0 0 0 0)])
     ''M-SEARCH * HTTP/1.1'') 20 query_ct IP_CT_NEW) = Inr NF_DROP \<and>
   registered (snd (ssdp_help alloc_ok (packet (eth0 [ifaddr (ipv4 192 168 1 50) (ipv4 0 0 0 0)])
     ''M-SEARCH * HTTP/1.1'') 20 query_ct IP_CT_NEW)) = [] \<and>
   warnings (snd (ssdp_help alloc_ok (packet (eth0 [ifaddr (ipv4 192 168 1 50) (ipv4 0 0 0 0)])
     ''M-SEARCH * HTTP/1.1'') 20 query_ct IP_CT_NEW)) =
     [Source_address_not_assigned (ipv4 192 168 1 50) ''eth0'']"
proof -
  have h1: "ip (dst_u3 (dst (tuplehash query_ct IP_CT_DIR_ORIGINAL))) = ipv4 239 255 255 250"
    by (simp add: query_ct_simps query_tuple_simps)
  have h2: "\<And>d. 8 \<le> length (udp_payload (packet d ''M-SEARCH * HTTP/1.1'') 20)"
    by (simp add: udp_payload_packet)
  have h3: "\<And>d. take 8 (udp_payload (packet d ''M-SEARCH * HTTP/1.1'') 20) = ''M-SEARCH''"
    by (simp add: udp_payload_packet)
  have h4: "ip (u3 (src (tuplehash query_ct IP_CT_DIR_ORIGINAL))) = ipv4 192 168 1 50"
    by (simp add: query_ct_simps query_tuple_simps)
  have h5: "in_dev (dev (packet (eth0 [ifaddr (ipv4 192 168 1 50) (ipv4 0 0 0 0)])
     ''M-SEARCH * HTTP/1.1'')) =
     Some \<lparr>ifa_list = [ifaddr (ipv4 192 168 1 50) (ipv4 0 0 0 0)]\<rparr>"
    by (simp add: dev_packet eth0_def)
  have h6: "find (\<lambda>a. ifa_local a = ipv4 192 168 1 50)
      (ifa_list \<lparr>ifa_list = [ifaddr (ipv4 192 168 1 50) (ipv4 0 0 0 0)]\<rparr>) =
      Some (ifaddr (ipv4 192 168 1 50) (ipv4 0 0 0 0))"
    by (simp add: ifaddr_def)
  have h7: "ifa_mask (ifaddr (ipv4 192 168 1 50) (ipv4 0 0 0 0)) = 0"
    by (simp add: ifaddr_def ipv4_simps)
  have n: "name (dev (packet (eth0 [ifaddr (ipv4 192 168 1 50) (ipv4 0 0 0 0)])
     ''M-SEARCH * HTTP/1.1'')) = ''eth0''"
    by (simp add: dev_packet eth0_def)
  show ?thesis
    using h6 h7 n
      zero_netmask_is_resolution_failure [where al = alloc_ok and ct = query_ct and
        ctinfo = IP_CT_NEW, OF h1 h2 h3 h4 h5 h6 h7]
    by simp
qed

subsection \<open>Allocation failure\<close>

text \<open>
  Claim C7. When the destination, the payload and the subnet lookup have all succeeded
  and the allocation of the expectation fails, \<open>ssdp_help\<close> returns \<open>NF_DROP\<close>, emits
  the warning of the allocation failure and registers nothing (first conjunct). A failed
  lookup and a failed allocation, on a matched query, are the only ways to \<open>NF_DROP\<close>
  (second conjunct).
\<close>

theorem allocation_failure_is_dropped:
  "(ip (dst_u3 (dst (tuplehash ct IP_CT_DIR_ORIGINAL))) = ipv4 239 255 255 250 \<and>
    8 \<le> length (udp_payload skb protoff) \<and>
    take 8 (udp_payload skb protoff) = ''M-SEARCH'' \<and>
    fst (ssdp_src_netmask skb (tuplehash ct IP_CT_DIR_ORIGINAL)) \<noteq> 0 \<and>
    al ct = None \<longrightarrow>
      fst (ssdp_help al skb protoff ct ctinfo) = Inr NF_DROP \<and>
      warnings (snd (ssdp_help al skb protoff ct ctinfo)) = [Memory_allocation_failure] \<and>
      Pr_warn Memory_allocation_failure \<in> set (snd (ssdp_help al skb protoff ct ctinfo)) \<and>
      Nf_ct_expect_alloc False \<in> set (snd (ssdp_help al skb protoff ct ctinfo)) \<and>
      registered (snd (ssdp_help al skb protoff ct ctinfo)) = []) \<and>
   ((fst (ssdp_help al skb protoff ct ctinfo) = Inr NF_DROP) =
      (ip (dst_u3 (dst (tuplehash ct IP_CT_DIR_ORIGINAL))) = ipv4 239 255 255 250 \<and>
       8 \<le> length (udp_payload skb protoff) \<and>
       take 8 (udp_payload skb protoff) = ''M-SEARCH'' \<and>
       (fst (ssdp_src_netmask skb (tuplehash ct IP_CT_DIR_ORIGINAL)) = 0 \<or> al ct = None)))"
proof (intro conjI impI)
  assume "ip (dst_u3 (dst (tuplehash ct IP_CT_DIR_ORIGINAL))) = ipv4 239 255 255 250 \<and>
    8 \<le> length (udp_payload skb protoff) \<and>
    take 8 (udp_payload skb protoff) = ''M-SEARCH'' \<and>
    fst (ssdp_src_netmask skb (tuplehash ct IP_CT_DIR_ORIGINAL)) \<noteq> 0 \<and>
    al ct = None"
  then have q: "is_query skb protoff ct"
    and nz: "fst (ssdp_src_netmask skb (tuplehash ct IP_CT_DIR_ORIGINAL)) \<noteq> 0"
    and f: "al ct = None"
    by (simp_all add: is_query_def mcast_addr)
  obtain nm ev1 where p: "ssdp_src_netmask skb (tuplehash ct IP_CT_DIR_ORIGINAL) = (nm, ev1)"
    by (cases "ssdp_src_netmask skb (tuplehash ct IP_CT_DIR_ORIGINAL)")
  have w: "warnings (snd (ssdp_src_netmask skb (tuplehash ct IP_CT_DIR_ORIGINAL))) = []"
    using nz by (simp add: ssdp_src_netmask_warnings ssdp_src_netmask_find split: option.splits)
  show "fst (ssdp_help al skb protoff ct ctinfo) = Inr NF_DROP"
    using f by (simp add: ssdp_help_query_verdict [OF q])
  show "warnings (snd (ssdp_help al skb protoff ct ctinfo)) = [Memory_allocation_failure]"
    using nz f by (simp add: ssdp_help_query_warnings [OF q] w)
  show "Pr_warn Memory_allocation_failure \<in> set (snd (ssdp_help al skb protoff ct ctinfo))"
    using nz f by (simp add: ssdp_help_query [OF q] p)
  show "Nf_ct_expect_alloc False \<in> set (snd (ssdp_help al skb protoff ct ctinfo))"
    using nz f by (simp add: ssdp_help_query [OF q] p)
  show "registered (snd (ssdp_help al skb protoff ct ctinfo)) = []"
    using f by (simp add: ssdp_help_query_registered [OF q])
next
  show "(fst (ssdp_help al skb protoff ct ctinfo) = Inr NF_DROP) =
      (ip (dst_u3 (dst (tuplehash ct IP_CT_DIR_ORIGINAL))) = ipv4 239 255 255 250 \<and>
       8 \<le> length (udp_payload skb protoff) \<and>
       take 8 (udp_payload skb protoff) = ''M-SEARCH'' \<and>
       (fst (ssdp_src_netmask skb (tuplehash ct IP_CT_DIR_ORIGINAL)) = 0 \<or> al ct = None))"
  proof (cases "is_query skb protoff ct")
    case True
    then show ?thesis
      using ssdp_help_query_verdict [OF True, of al ctinfo]
      by (simp add: is_query_def mcast_addr)
  next
    case False
    from ssdp_help_no_query [OF False, of al ctinfo]
    obtain m where "ssdp_help al skb protoff ct ctinfo =
        (Inr NF_ACCEPT, [flow_debug (tuplehash ct IP_CT_DIR_ORIGINAL), Pr_debug m])" by blast
    then have "fst (ssdp_help al skb protoff ct ctinfo) \<noteq> Inr NF_DROP" by simp
    with False show ?thesis by (auto simp: is_query_def mcast_addr)
  qed
qed

theorem allocation_failure_is_dropped_witness:
  "ip (dst_u3 (dst (tuplehash query_ct IP_CT_DIR_ORIGINAL))) = ipv4 239 255 255 250 \<and>
   take 8 (udp_payload (packet (eth0 [ifaddr (ipv4 192 168 1 50) (ipv4 255 255 255 0)])
      ''M-SEARCH * HTTP/1.1'') 20) = ''M-SEARCH'' \<and>
   fst (ssdp_src_netmask (packet (eth0 [ifaddr (ipv4 192 168 1 50) (ipv4 255 255 255 0)])
      ''M-SEARCH * HTTP/1.1'') (tuplehash query_ct IP_CT_DIR_ORIGINAL)) \<noteq> 0 \<and>
   alloc_fails query_ct = None \<and>
   fst (ssdp_help alloc_fails (packet (eth0 [ifaddr (ipv4 192 168 1 50) (ipv4 255 255 255 0)])
      ''M-SEARCH * HTTP/1.1'') 20 query_ct IP_CT_NEW) = Inr NF_DROP \<and>
   warnings (snd (ssdp_help alloc_fails
      (packet (eth0 [ifaddr (ipv4 192 168 1 50) (ipv4 255 255 255 0)])
      ''M-SEARCH * HTTP/1.1'') 20 query_ct IP_CT_NEW)) = [Memory_allocation_failure] \<and>
   registered (snd (ssdp_help alloc_fails
      (packet (eth0 [ifaddr (ipv4 192 168 1 50) (ipv4 255 255 255 0)])
      ''M-SEARCH * HTTP/1.1'') 20 query_ct IP_CT_NEW)) = [] \<and>
   fst (ssdp_help alloc_ok (packet (eth0 [ifaddr (ipv4 192 168 1 50) (ipv4 255 255 255 0)])
      ''M-SEARCH * HTTP/1.1'') 20 query_ct IP_CT_NEW) \<noteq> Inr NF_DROP"
proof -
  have h1: "ip (dst_u3 (dst (tuplehash query_ct IP_CT_DIR_ORIGINAL))) = ipv4 239 255 255 250"
    by (simp add: query_ct_simps query_tuple_simps)
  have h2: "8 \<le> length (udp_payload (packet (eth0 [ifaddr (ipv4 192 168 1 50)
      (ipv4 255 255 255 0)]) ''M-SEARCH * HTTP/1.1'') 20)"
    by (simp add: udp_payload_packet)
  have h3: "take 8 (udp_payload (packet (eth0 [ifaddr (ipv4 192 168 1 50) (ipv4 255 255 255 0)])
      ''M-SEARCH * HTTP/1.1'') 20) = ''M-SEARCH''"
    by (simp add: udp_payload_packet)
  have h4: "fst (ssdp_src_netmask (packet (eth0 [ifaddr (ipv4 192 168 1 50)
      (ipv4 255 255 255 0)]) ''M-SEARCH * HTTP/1.1'')
      (tuplehash query_ct IP_CT_DIR_ORIGINAL)) \<noteq> 0"
    by (simp add: query_ct_simps example_netmask ipv4_simps)
  have h5: "alloc_fails query_ct = None" "alloc_ok query_ct \<noteq> None" by simp_all
  show ?thesis
    using h1 h2 h3 h4 h5
      allocation_failure_is_dropped [of query_ct
        "packet (eth0 [ifaddr (ipv4 192 168 1 50) (ipv4 255 255 255 0)]) ''M-SEARCH * HTTP/1.1''"
        20 alloc_fails IP_CT_NEW]
      allocation_failure_is_dropped [of query_ct
        "packet (eth0 [ifaddr (ipv4 192 168 1 50) (ipv4 255 255 255 0)]) ''M-SEARCH * HTTP/1.1''"
        20 alloc_ok IP_CT_NEW]
    by simp
qed

subsection \<open>The reference to the address configuration\<close>

text \<open>
  Claim C8. When \<open>in_dev_get\<close> returns the device's address configuration, the calls of
  \<open>ssdp_src_netmask\<close> begin with that acquisition and end with \<open>in_dev_put\<close>, and neither
  occurs in between: the reference is released exactly once, whatever the search finds,
  and nothing (in particular no read of an entry of the list) follows the release. When
  \<open>in_dev_get\<close> returns \<open>NULL\<close> there is no reference, none is released, and the list is
  not read.
\<close>

theorem address_configuration_released_once:
  "(\<forall>d. in_dev (dev skb) = Some d \<longrightarrow>
      (\<exists>evs. snd (ssdp_src_netmask skb orig) = In_dev_get True # evs @ [In_dev_put] \<and>
             In_dev_put \<notin> set evs \<and> In_dev_get True \<notin> set evs \<and>
             In_dev_get False \<notin> set evs) \<and>
      count_list (snd (ssdp_src_netmask skb orig)) In_dev_put = 1 \<and>
      count_list (snd (ssdp_src_netmask skb orig)) (In_dev_get True) = 1 \<and>
      (\<forall>pre post. snd (ssdp_src_netmask skb orig) = pre @ In_dev_put # post \<longrightarrow> post = [])) \<and>
   (in_dev (dev skb) = None \<longrightarrow>
      count_list (snd (ssdp_src_netmask skb orig)) In_dev_put = 0 \<and>
      count_list (snd (ssdp_src_netmask skb orig)) (In_dev_get True) = 0 \<and>
      filter is_ifa_read (snd (ssdp_src_netmask skb orig)) = [])"
proof (intro conjI allI impI)
  fix d
  assume d: "in_dev (dev skb) = Some d"
  from ssdp_src_netmask_trace [OF d, of orig]
  obtain evs where e: "snd (ssdp_src_netmask skb orig) = In_dev_get True # evs @ [In_dev_put]"
    and n: "In_dev_put \<notin> set evs" "In_dev_get True \<notin> set evs" "In_dev_get False \<notin> set evs"
    by blast
  show "\<exists>evs. snd (ssdp_src_netmask skb orig) = In_dev_get True # evs @ [In_dev_put] \<and>
             In_dev_put \<notin> set evs \<and> In_dev_get True \<notin> set evs \<and>
             In_dev_get False \<notin> set evs"
    using e n by blast
  show "count_list (snd (ssdp_src_netmask skb orig)) In_dev_put = 1"
    using n(1) by (simp add: e count_list_0_iff)
  show "count_list (snd (ssdp_src_netmask skb orig)) (In_dev_get True) = 1"
    using n(2) by (simp add: e count_list_0_iff)
  {
    fix pre post
    assume "snd (ssdp_src_netmask skb orig) = pre @ In_dev_put # post"
    then have "pre @ In_dev_put # post = (In_dev_get True # evs) @ [In_dev_put]"
      by (simp add: e)
    moreover have "In_dev_put \<notin> set (In_dev_get True # evs)" using n(1) by simp
    ultimately show "post = []" by (rule nothing_after_last [rotated])
  }
next
  assume n: "in_dev (dev skb) = None"
  show "count_list (snd (ssdp_src_netmask skb orig)) In_dev_put = 0"
    by (simp add: ssdp_src_netmask_no_dev [OF n])
  show "count_list (snd (ssdp_src_netmask skb orig)) (In_dev_get True) = 0"
    by (simp add: ssdp_src_netmask_no_dev [OF n])
  show "filter is_ifa_read (snd (ssdp_src_netmask skb orig)) = []"
    by (simp add: ssdp_src_netmask_no_dev [OF n])
qed

theorem address_configuration_released_once_witness:
  "in_dev (dev (packet (eth0 [ifaddr (ipv4 192 168 1 50) (ipv4 255 255 255 0)]) [])) =
     Some \<lparr>ifa_list = [ifaddr (ipv4 192 168 1 50) (ipv4 255 255 255 0)]\<rparr> \<and>
   snd (ssdp_src_netmask (packet (eth0 [ifaddr (ipv4 192 168 1 50) (ipv4 255 255 255 0)]) [])
     query_tuple) =
     [In_dev_get True, Ifa_read (ifaddr (ipv4 192 168 1 50) (ipv4 255 255 255 0)),
      Pr_debug (Found_netmask (ipv4 255 255 255 0) (ipv4 192 168 1 50) ''eth0''),
      In_dev_put] \<and>
   count_list (snd (ssdp_src_netmask
     (packet (eth0 [ifaddr (ipv4 192 168 1 50) (ipv4 255 255 255 0)]) []) query_tuple))
     In_dev_put = 1 \<and>
   in_dev (dev (packet eth0_unconfigured [])) = None \<and>
   count_list (snd (ssdp_src_netmask (packet eth0_unconfigured []) query_tuple)) In_dev_put = 0"
proof -
  have d: "in_dev (dev (packet (eth0 [ifaddr (ipv4 192 168 1 50) (ipv4 255 255 255 0)]) [])) =
     Some \<lparr>ifa_list = [ifaddr (ipv4 192 168 1 50) (ipv4 255 255 255 0)]\<rparr>"
    by (simp add: dev_packet eth0_def)
  have n: "in_dev (dev (packet eth0_unconfigured [])) = None"
    by (simp add: dev_packet eth0_unconfigured_def)
  show ?thesis
    using d n
      address_configuration_released_once [of
        "packet (eth0 [ifaddr (ipv4 192 168 1 50) (ipv4 255 255 255 0)]) []" query_tuple]
      address_configuration_released_once [of "packet eth0_unconfigured []" query_tuple]
    by (simp add: example_netmask)
qed

subsection \<open>Several entries for one address\<close>

text \<open>
  Claim C9. The search depends on the order of the list: the lookup returns the mask of
  the first entry whose local address is the query's source address. The entries after
  it, whatever their addresses and masks, are not read and change nothing: the lookup
  does the same on the list cut after that entry.
\<close>

theorem first_matching_entry_wins:
  assumes "in_dev (dev skb) = Some d"
    and "ifa_list d = pre @ a # post"
    and "\<forall>b\<in>set pre. ifa_local b \<noteq> ip (u3 (src orig))"
    and "ifa_local a = ip (u3 (src orig))"
  shows "fst (ssdp_src_netmask skb orig) = ifa_mask a \<and>
         filter is_ifa_read (snd (ssdp_src_netmask skb orig)) = map Ifa_read (pre @ [a]) \<and>
         ssdp_src_netmask skb orig =
           ssdp_src_netmask (skb\<lparr>dev := (dev skb)\<lparr>in_dev := Some (d\<lparr>ifa_list := pre @ [a]\<rparr>)\<rparr>\<rparr>)
             orig"
proof -
  have l: "ifa_loop (ifa_list d) (ip (u3 (src orig))) =
      (ifa_mask a,
       map Ifa_read pre @
       [Ifa_read a, Pr_debug (Found_netmask (ifa_mask a) (ip (u3 (src orig))) (ifa_label a))])"
    unfolding assms(2) using assms(3,4) by (rule ifa_loop_first_match)
  have l': "ifa_loop (pre @ [a]) (ip (u3 (src orig))) =
      (ifa_mask a,
       map Ifa_read pre @
       [Ifa_read a, Pr_debug (Found_netmask (ifa_mask a) (ip (u3 (src orig))) (ifa_label a))])"
    using assms(3,4) by (rule ifa_loop_first_match)
  have f: "filter is_ifa_read (map Ifa_read pre) = map Ifa_read pre"
    by (induction pre) simp_all
  have whole: "ssdp_src_netmask skb orig =
      (ifa_mask a,
       In_dev_get True #
       (map Ifa_read pre @
        [Ifa_read a, Pr_debug (Found_netmask (ifa_mask a) (ip (u3 (src orig))) (ifa_label a))]) @
       (if ifa_mask a = 0
        then [Pr_warn (Source_address_not_assigned (ip (u3 (src orig))) (name (dev skb)))]
        else []) @
       [In_dev_put])"
    by (simp add: ssdp_src_netmask_def assms(1) l)
  have cut: "ssdp_src_netmask
      (skb\<lparr>dev := (dev skb)\<lparr>in_dev := Some (d\<lparr>ifa_list := pre @ [a]\<rparr>)\<rparr>\<rparr>) orig =
      (ifa_mask a,
       In_dev_get True #
       (map Ifa_read pre @
        [Ifa_read a, Pr_debug (Found_netmask (ifa_mask a) (ip (u3 (src orig))) (ifa_label a))]) @
       (if ifa_mask a = 0
        then [Pr_warn (Source_address_not_assigned (ip (u3 (src orig))) (name (dev skb)))]
        else []) @
       [In_dev_put])"
    by (simp add: ssdp_src_netmask_in_dev_update l')
  show ?thesis
    by (simp add: whole cut f)
qed

theorem first_matching_entry_wins_witness:
  "in_dev (dev (packet (eth0 [ifaddr (ipv4 10 0 0 1) (ipv4 255 255 255 0),
      ifaddr (ipv4 192 168 1 50) (ipv4 255 255 255 0),
      ifaddr (ipv4 192 168 1 50) (ipv4 255 255 0 0)]) [])) =
     Some \<lparr>ifa_list = [ifaddr (ipv4 10 0 0 1) (ipv4 255 255 255 0),
       ifaddr (ipv4 192 168 1 50) (ipv4 255 255 255 0),
       ifaddr (ipv4 192 168 1 50) (ipv4 255 255 0 0)]\<rparr> \<and>
   ifa_local (ifaddr (ipv4 10 0 0 1) (ipv4 255 255 255 0)) \<noteq> ip (u3 (src query_tuple)) \<and>
   ifa_local (ifaddr (ipv4 192 168 1 50) (ipv4 255 255 255 0)) = ip (u3 (src query_tuple)) \<and>
   ifa_local (ifaddr (ipv4 192 168 1 50) (ipv4 255 255 0 0)) = ip (u3 (src query_tuple)) \<and>
   fst (ssdp_src_netmask (packet (eth0 [ifaddr (ipv4 10 0 0 1) (ipv4 255 255 255 0),
      ifaddr (ipv4 192 168 1 50) (ipv4 255 255 255 0),
      ifaddr (ipv4 192 168 1 50) (ipv4 255 255 0 0)]) []) query_tuple) = ipv4 255 255 255 0 \<and>
   ipv4 255 255 255 0 \<noteq> ipv4 255 255 0 0 \<and>
   filter is_ifa_read (snd (ssdp_src_netmask (packet (eth0 [ifaddr (ipv4 10 0 0 1)
      (ipv4 255 255 255 0), ifaddr (ipv4 192 168 1 50) (ipv4 255 255 255 0),
      ifaddr (ipv4 192 168 1 50) (ipv4 255 255 0 0)]) []) query_tuple)) =
     [Ifa_read (ifaddr (ipv4 10 0 0 1) (ipv4 255 255 255 0)),
      Ifa_read (ifaddr (ipv4 192 168 1 50) (ipv4 255 255 255 0))]"
proof -
  let ?l = "[ifaddr (ipv4 10 0 0 1) (ipv4 255 255 255 0),
      ifaddr (ipv4 192 168 1 50) (ipv4 255 255 255 0),
      ifaddr (ipv4 192 168 1 50) (ipv4 255 255 0 0)]"
  have h1: "in_dev (dev (packet (eth0 ?l) [])) = Some \<lparr>ifa_list = ?l\<rparr>"
    by (simp add: dev_packet eth0_def)
  have h2: "ifa_list \<lparr>ifa_list = ?l\<rparr> =
      [ifaddr (ipv4 10 0 0 1) (ipv4 255 255 255 0)] @
      ifaddr (ipv4 192 168 1 50) (ipv4 255 255 255 0) #
      [ifaddr (ipv4 192 168 1 50) (ipv4 255 255 0 0)]"
    by simp
  have n: "ifa_local (ifaddr (ipv4 10 0 0 1) (ipv4 255 255 255 0)) \<noteq> ip (u3 (src query_tuple))"
    by (simp add: ifaddr_def query_tuple_simps ipv4_simps)
  then have h3: "\<forall>b\<in>set [ifaddr (ipv4 10 0 0 1) (ipv4 255 255 255 0)].
      ifa_local b \<noteq> ip (u3 (src query_tuple))"
    by simp
  have h4: "ifa_local (ifaddr (ipv4 192 168 1 50) (ipv4 255 255 255 0)) =
      ip (u3 (src query_tuple))"
    "ifa_local (ifaddr (ipv4 192 168 1 50) (ipv4 255 255 0 0)) = ip (u3 (src query_tuple))"
    by (simp_all add: ifaddr_def query_tuple_simps)
  have m: "ifa_mask (ifaddr (ipv4 192 168 1 50) (ipv4 255 255 255 0)) = ipv4 255 255 255 0"
    by (simp add: ifaddr_def)
  from first_matching_entry_wins [OF h1 h2 h3 h4(1)]
  have r1: "fst (ssdp_src_netmask (packet (eth0 ?l) []) query_tuple) =
      ifa_mask (ifaddr (ipv4 192 168 1 50) (ipv4 255 255 255 0))"
    and r2: "filter is_ifa_read (snd (ssdp_src_netmask (packet (eth0 ?l) []) query_tuple)) =
      map Ifa_read ([ifaddr (ipv4 10 0 0 1) (ipv4 255 255 255 0)] @
        [ifaddr (ipv4 192 168 1 50) (ipv4 255 255 255 0)])"
    by blast+
  have r3: "ipv4 255 255 255 0 \<noteq> ipv4 255 255 0 0" by (rule ipv4_simps(7))
  show ?thesis
    unfolding r1 r2 m using h1 n h4 r3 by simp
qed

end
